theory Spec2Isabelle
  imports Complex_Main "HOL-Library.Stream" "HOL-Library.AList"
begin

section \<open>Data model (types.ts)\<close>

text \<open>
  JavaScript numbers are modelled exactly: quantities that the content tables give with a
  fractional part (item weight, item value, shop multipliers, carrying capacity) are
  real numbers, every other number (hit points, armour class, dice, gold, levels) is an
  integer. Floating-point rounding is not modelled.  Identifiers are strings.  A
  \<open>Record<string, T>\<close> is a map from strings, an optional field is an \<open>option\<close>.
\<close>

datatype Ability = Strength | Dexterity | Constitution | Intelligence | Wisdom | Charisma

record AbilityScores =
  strength :: int
  dexterity :: int
  constitution :: int
  intelligence :: int
  wisdom :: int
  charisma :: int

type_synonym AbilityModifiers = AbilityScores

datatype ItemType = Weapon | Armor | Potion | Treasure | QuestItem | Misc

record Item =
  item_id :: string
  item_name :: string
  item_description :: string
  weight :: real
  item_value :: real
  item_type :: ItemType
  usable :: bool

record Inventory =
  items :: "Item list"
  maxWeight :: real
  currentWeight :: real

record HitPoints =
  hp_current :: int
  hp_max :: int

record Character =
  char_id :: string
  char_name :: string
  race :: string
  char_class :: string
  level :: int
  experience :: int
  hitPoints :: HitPoints
  abilityScores :: AbilityScores
  abilityModifiers :: AbilityModifiers
  inventory :: Inventory
  gold :: int
  armorClass :: int

text \<open>
  \<open>connections\<close> is the object literal of a location: its keys in insertion order with
  their targets (\<open>Object.keys\<close> is \<open>map fst\<close>, a property read is \<open>map_of\<close>).
\<close>

record Location =
  loc_id :: string
  loc_name :: string
  loc_description :: string
  connections :: "(string \<times> string) list"
  loc_npcs :: "string list"
  loc_items :: "Item list"
  visited :: bool

record Stats =
  stat_hitPoints :: int
  stat_armorClass :: int
  attackBonus :: int
  damage :: string

record ShopInventory =
  shop_items :: "Item list"
  buyMultiplier :: real
  sellMultiplier :: real

text \<open>
  A dialogue option may carry a callback \<open>(gameState) => GameState\<close>.  The world data
  (npcs.ts) attaches exactly three different callbacks; an option of the model names
  which one it carries, and \<open>runOptionAction\<close> below is their code.  The field
  \<open>condition\<close> of a dialogue node is never read by the engine and is left out.
\<close>

datatype DialogueAction = AcceptQuestStub | ShowWares | ShowSellable

record DialogueOption =
  opt_text :: string
  nextNodeId :: "string option"
  opt_action :: "DialogueAction option"
  requiresCheck :: "(Ability \<times> int) option"

record DialogueNode =
  node_id :: string
  node_text :: string
  options :: "DialogueOption list"

record NPC =
  npc_id :: string
  npc_name :: string
  npc_description :: string
  dialogue :: "DialogueNode list"
  hostile :: bool
  stats :: "Stats option"
  questGiver :: "bool option"
  shop :: "ShopInventory option"

datatype QuestStatus = Available | Active | Completed | Failed

datatype ObjectiveType = Kill | Collect | TalkTo | Explore | Deliver

record QuestObjective =
  obj_id :: string
  obj_description :: string
  obj_completed :: bool
  obj_type :: ObjectiveType
  obj_target :: "string option"
  obj_count :: "int option"
  obj_currentCount :: "int option"

record Quest =
  quest_id :: string
  quest_title :: string
  quest_description :: string
  objectives :: "QuestObjective list"
  reward_experience :: int
  reward_gold :: "int option"
  reward_items :: "Item list option"
  quest_status :: QuestStatus

record CombatState =
  active :: bool
  enemies :: "NPC list"
  enemyMaxHPs :: "string \<rightharpoonup> int"
  totalEnemyCount :: nat
  turnOrder :: "string list"
  currentTurnIndex :: nat
  combat_round :: nat

record ActiveDialogue =
  ad_npcId :: string
  currentNodeId :: string

datatype LogType = Info | Success | Warning | Error | Combat | Dialogue

text \<open>
  A log message is kept as the pieces of its template literal: text, and numbers that
  JavaScript would print (\<open>N\<close>, and \<open>F1\<close> for \<open>toFixed(1)\<close>).  The fields \<open>id\<close> and
  \<open>timestamp\<close> of a log entry and the \<open>timestamp\<close> of the game state are fresh values of
  \<open>nanoid()\<close> and \<open>Date.now()\<close>; they are not part of the model.
\<close>

datatype MsgPart = T string | N real | F1 real

record LogEntry =
  message :: "MsgPart list"
  log_type :: LogType

record GameState =
  character :: Character
  currentLocationId :: string
  locations :: "string \<rightharpoonup> Location"
  npcs :: "string \<rightharpoonup> NPC"
  quests :: "Quest list"
  combat :: CombatState
  activeDialogue :: "ActiveDialogue option"
  gameLog :: "LogEntry list"

datatype GameAction =
    MOVE string
  | TALK string
  | DIALOGUE_SELECT int
  | TAKE string
  | USE string
  | DROP string
  | ATTACK string
  | DEFEND
  | FLEE
  | BUY string string
  | SELL string string
  | REST
  | LOOK
  | INVENTORY
  | STATS
  | SAVE_GAME
  | LOAD_GAME string

section \<open>Exceptions and randomness\<close>

text \<open>
  Every \<open>throw\<close> of the source is a value \<open>Inl e\<close>; \<open>TypeError\<close> is the exception
  JavaScript raises when a property of \<open>undefined\<close> is read.
\<close>

datatype error =
    InvalidDie
  | InvalidDamageString string
  | NoCombatStats
  | InvalidClass string
  | TypeError

definition bindE :: "error + 'a \<Rightarrow> ('a \<Rightarrow> error + 'b) \<Rightarrow> error + 'b" where
  "bindE m f = (case m of Inl e \<Rightarrow> Inl e | Inr x \<Rightarrow> f x)"

text \<open>
  \<open>Math.random()\<close> is an external source: the model reads its successive results from a
  stream, and every function that draws returns the rest of the stream.
\<close>

type_synonym rng = "real stream"

definition validRng :: "rng \<Rightarrow> bool" where
  "validRng g = (\<forall>u \<in> sset g. 0 \<le> u \<and> u < 1)"

section \<open>Dice (dice.ts)\<close>

definition rollDice :: "int \<Rightarrow> rng \<Rightarrow> error + (int \<times> rng)" where
  "rollDice sides g =
     (if sides < 1 then Inl InvalidDie
      else Inr (\<lfloor>shd g * of_int sides\<rfloor> + 1, stl g))"

definition getAbilityModifier :: "int \<Rightarrow> int" where
  "getAbilityModifier score = (score - 10) div 2"


section \<open>Classes (classes.ts)\<close>

text \<open>
  Of a class record the modelled code reads the name and the hit die (and
  \<open>createCharacter\<close>, which is not modelled, the starting gold); the description, the
  primary abilities and the starting equipment are left out.
\<close>

record CharacterClass =
  class_name :: string
  hitDie :: int
  startingGold :: int

definition CLASSES :: "(string \<times> CharacterClass) list" where
  "CLASSES =
     [(''fighter'', \<lparr>class_name = ''Fighter'', hitDie = 10, startingGold = 50\<rparr>),
      (''wizard'', \<lparr>class_name = ''Wizard'', hitDie = 6, startingGold = 30\<rparr>),
      (''rogue'', \<lparr>class_name = ''Rogue'', hitDie = 8, startingGold = 40\<rparr>),
      (''cleric'', \<lparr>class_name = ''Cleric'', hitDie = 8, startingGold = 35\<rparr>),
      (''ranger'', \<lparr>class_name = ''Ranger'', hitDie = 10, startingGold = 45\<rparr>),
      (''paladin'', \<lparr>class_name = ''Paladin'', hitDie = 10, startingGold = 40\<rparr>)]"

definition toLowerChar :: "char \<Rightarrow> char" where
  "toLowerChar c =
     (case map_of (zip ''ABCDEFGHIJKLMNOPQRSTUVWXYZ'' ''abcdefghijklmnopqrstuvwxyz'') c of
        Some l \<Rightarrow> l
      | None \<Rightarrow> c)"

definition toLowerCase :: "string \<Rightarrow> string" where
  "toLowerCase s = map toLowerChar s"

definition getClass :: "string \<Rightarrow> CharacterClass option" where
  "getClass className = map_of CLASSES (toLowerCase className)"

section \<open>Character (character.ts)\<close>

text \<open>The \<open>while\<close> loop of \<open>awardExperience\<close>, on the character and the flag it updates.\<close>

function levelUpLoop ::
  "int \<Rightarrow> Character \<Rightarrow> bool \<Rightarrow> rng \<Rightarrow> error + ((Character \<times> bool) \<times> rng)" where
  "levelUpLoop die c leveledUp g =
     (if experience c \<ge> level c * 1000 then
        (case rollDice die g of
           Inl e \<Rightarrow> Inl e
         | Inr (r, g') \<Rightarrow>
             (let hitPointIncrease = r + constitution (abilityModifiers c);
                  actualIncrease = max 1 hitPointIncrease
              in levelUpLoop die
                   (c\<lparr>level := level c + 1,
                      hitPoints :=
                        \<lparr>hp_current = hp_current (hitPoints c) + actualIncrease,
                         hp_max = hp_max (hitPoints c) + actualIncrease\<rparr>\<rparr>)
                   True g'))
      else Inr ((c, leveledUp), g))"
  by pat_completeness auto
termination
  by (relation "measure (\<lambda>(die, c, l, g). nat (experience c - level c * 1000 + 1))") auto

declare levelUpLoop.simps [simp del]

definition awardExperience ::
  "Character \<Rightarrow> int \<Rightarrow> rng \<Rightarrow> error + ((Character \<times> bool) \<times> rng)" where
  "awardExperience c xp g =
     (let newExperience = experience c + xp;
          xpForNextLevel = level c * 1000
      in if newExperience \<ge> xpForNextLevel then
           (case getClass (char_class c) of
              None \<Rightarrow> Inl (InvalidClass (char_class c))
            | Some characterClass \<Rightarrow>
                levelUpLoop (hitDie characterClass) (c\<lparr>experience := newExperience\<rparr>) False g)
         else Inr ((c\<lparr>experience := newExperience\<rparr>, False), g))"

definition healCharacter :: "Character \<Rightarrow> int \<Rightarrow> Character" where
  "healCharacter c amount =
     (let newHP = min (hp_max (hitPoints c)) (hp_current (hitPoints c) + amount)
      in c\<lparr>hitPoints := (hitPoints c)\<lparr>hp_current := newHP\<rparr>\<rparr>)"

definition damageCharacter :: "Character \<Rightarrow> int \<Rightarrow> Character" where
  "damageCharacter c amount =
     (let newHP = max 0 (hp_current (hitPoints c) - amount)
      in c\<lparr>hitPoints := (hitPoints c)\<lparr>hp_current := newHP\<rparr>\<rparr>)"

definition isAlive :: "Character \<Rightarrow> bool" where
  "isAlive c = (hp_current (hitPoints c) > 0)"

section \<open>Strings: printing an integer, the damage pattern\<close>

definition digitChar :: "nat \<Rightarrow> char" where
  "digitChar n = ''0123456789'' ! n"

fun showNat :: "nat \<Rightarrow> string" where
  "showNat n = (if n < 10 then [digitChar n] else showNat (n div 10) @ [digitChar (n mod 10)])"

declare showNat.simps [simp del]

definition showInt :: "int \<Rightarrow> string" where
  "showInt i = (if i < 0 then CHR ''-'' # showNat (nat (- i)) else showNat (nat i))"

definition digitValue :: "char \<Rightarrow> nat option" where
  "digitValue c =
     map_of [(CHR ''0'', 0), (CHR ''1'', 1), (CHR ''2'', 2), (CHR ''3'', 3), (CHR ''4'', 4),
             (CHR ''5'', 5), (CHR ''6'', 6), (CHR ''7'', 7), (CHR ''8'', 8), (CHR ''9'', 9)] c"

definition isDigit :: "char \<Rightarrow> bool" where
  "isDigit c = (digitValue c \<noteq> None)"

text \<open>\<open>parseInt(ds, 10)\<close> on a non-empty run of digits.\<close>

definition parseDigits :: "string \<Rightarrow> nat" where
  "parseDigits ds = foldl (\<lambda>acc c. 10 * acc + (case digitValue c of Some d \<Rightarrow> d | None \<Rightarrow> 0)) 0 ds"

text \<open>
  The third group \<open>([+-]\d+)?\<close> at the text that follows the second run of digits, read
  with \<open>parseInt\<close>; an absent group counts 0.
\<close>

definition matchModifier :: "string \<Rightarrow> int" where
  "matchModifier s =
     (case s of
        [] \<Rightarrow> 0
      | c # r \<Rightarrow>
          (let ds = takeWhile isDigit r
           in if (c = CHR ''+'' \<or> c = CHR ''-'') \<and> ds \<noteq> []
              then (if c = CHR ''-'' then - int (parseDigits ds) else int (parseDigits ds))
              else 0))"

text \<open>
  A match of \<open>(\d+)d(\d+)([+-]\d+)?\<close> that starts at the head of the text.  Both runs of
  digits are greedy; giving digits back cannot help, since the character after a shorter
  run is a digit and not \<open>d\<close>.
\<close>

definition matchDamageAt :: "string \<Rightarrow> (nat \<times> nat \<times> int) option" where
  "matchDamageAt s =
     (let ds1 = takeWhile isDigit s; r1 = dropWhile isDigit s
      in if ds1 = [] then None
         else (case r1 of
                 [] \<Rightarrow> None
               | c # r2 \<Rightarrow>
                   (let ds2 = takeWhile isDigit r2; r3 = dropWhile isDigit r2
                    in if c = CHR ''d'' \<and> ds2 \<noteq> []
                       then Some (parseDigits ds1, parseDigits ds2, matchModifier r3)
                       else None)))"

text \<open>\<open>String.prototype.match\<close> without the global flag: the leftmost match.\<close>

fun matchDamage :: "string \<Rightarrow> (nat \<times> nat \<times> int) option" where
  "matchDamage [] = None"
| "matchDamage (c # cs) =
     (case matchDamageAt (c # cs) of
        Some m \<Rightarrow> Some m
      | None \<Rightarrow> matchDamage cs)"

section \<open>Combat (combat.ts)\<close>

definition rollInitiative :: "int \<Rightarrow> rng \<Rightarrow> error + (int \<times> rng)" where
  "rollInitiative dexterityModifier g =
     bindE (rollDice 20 g) (\<lambda>(r, g'). Inr (r + dexterityModifier, g'))"

text \<open>
  The object \<open>initiatives\<close> is an association list in insertion order: assigning to a key
  it has keeps the key's place, a new key goes to the end (ids are not array indices,
  which JavaScript would list first).  \<open>Array.prototype.sort\<close> is stable, as is
  \<open>sort_key\<close>.
\<close>

fun rollEnemyInitiatives ::
  "NPC list \<Rightarrow> (string \<times> int) list \<Rightarrow> rng \<Rightarrow> error + ((string \<times> int) list \<times> rng)" where
  "rollEnemyInitiatives [] initiatives g = Inr (initiatives, g)"
| "rollEnemyInitiatives (enemy # rest) initiatives g =
     (let dexMod = (case stats enemy of
                      Some st \<Rightarrow> (stat_armorClass st - 10) div 2
                    | None \<Rightarrow> 0)
      in case rollInitiative dexMod g of
           Inl e \<Rightarrow> Inl e
         | Inr (i, g') \<Rightarrow>
             rollEnemyInitiatives rest (AList.update (npc_id enemy) i initiatives) g')"

definition determineTurnOrder ::
  "Character \<Rightarrow> NPC list \<Rightarrow> rng \<Rightarrow> error + ((string list \<times> (string \<times> int) list) \<times> rng)" where
  "determineTurnOrder c es g =
     (case rollInitiative (dexterity (abilityModifiers c)) g of
        Inl e \<Rightarrow> Inl e
      | Inr (i, g') \<Rightarrow>
          (case rollEnemyInitiatives es [(char_id c, i)] g' of
             Inl e \<Rightarrow> Inl e
           | Inr (initiatives, g'') \<Rightarrow>
               Inr ((map fst (sort_key (\<lambda>p. - snd p) initiatives), initiatives), g'')))"

record AttackRoll =
  roll :: int
  total :: int
  hits :: bool
  critical :: bool
  criticalFail :: bool

definition makeAttackRoll :: "int \<Rightarrow> int \<Rightarrow> rng \<Rightarrow> error + (AttackRoll \<times> rng)" where
  "makeAttackRoll attackBonus' targetAC g =
     bindE (rollDice 20 g) (\<lambda>(r, g').
       let t = r + attackBonus'
       in Inr (\<lparr>roll = r, total = t, hits = (t \<ge> targetAC \<or> r = 20),
                critical = (r = 20), criticalFail = (r = 1)\<rparr>, g'))"

text \<open>The \<open>for\<close> loop of \<open>rollDamage\<close>: \<open>n\<close> more dice onto the running total.\<close>

fun rollDamageLoop :: "nat \<Rightarrow> int \<Rightarrow> int \<Rightarrow> rng \<Rightarrow> error + (int \<times> rng)" where
  "rollDamageLoop 0 sides t g = Inr (t, g)"
| "rollDamageLoop (Suc n) sides t g =
     (case rollDice sides g of
        Inl e \<Rightarrow> Inl e
      | Inr (r, g') \<Rightarrow> rollDamageLoop n sides (t + r) g')"

definition rollDamage :: "string \<Rightarrow> rng \<Rightarrow> error + (int \<times> rng)" where
  "rollDamage damageString g =
     (case matchDamage damageString of
        None \<Rightarrow> Inl (InvalidDamageString damageString)
      | Some (dice, sides, md) \<Rightarrow>
          bindE (rollDamageLoop dice (int sides) md g) (\<lambda>(t, g'). Inr (max 0 t, g')))"

definition getAttackBonus :: "Character \<Rightarrow> bool \<Rightarrow> int" where
  "getAttackBonus c ranged =
     (let proficiencyBonus = (level c - 1) div 4 + 2;
          abilityModifier = (if ranged then dexterity (abilityModifiers c)
                             else strength (abilityModifiers c))
      in abilityModifier + proficiencyBonus)"

definition baseDamage :: "bool \<Rightarrow> (string \<times> string) list" where
  "baseDamage ranged =
     [(''Fighter'', ''1d8''), (''Paladin'', ''1d8''),
      (''Ranger'', if ranged then ''1d8'' else ''1d6''),
      (''Cleric'', ''1d6''), (''Rogue'', ''1d6''), (''Wizard'', ''1d4'')]"

definition getWeaponDamage :: "Character \<Rightarrow> bool \<Rightarrow> string" where
  "getWeaponDamage c ranged =
     (let abilityModifier = (if ranged then dexterity (abilityModifiers c)
                             else strength (abilityModifiers c));
          base = (case map_of (baseDamage ranged) (char_class c) of
                    Some b \<Rightarrow> b
                  | None \<Rightarrow> ''1d6'');
          modifier = (if abilityModifier \<ge> 0 then CHR ''+'' # showInt abilityModifier
                      else showInt abilityModifier)
      in base @ modifier)"

record AttackResult =
  attackRoll :: AttackRoll
  dealt :: int
  attack_message :: "MsgPart list"

definition characterAttack :: "Character \<Rightarrow> NPC \<Rightarrow> rng \<Rightarrow> error + (AttackResult \<times> rng)" where
  "characterAttack c enemy g =
     (case stats enemy of
        None \<Rightarrow> Inl NoCombatStats
      | Some st \<Rightarrow>
          bindE (makeAttackRoll (getAttackBonus c False) (stat_armorClass st) g) (\<lambda>(ar, g1).
            if critical ar then
              bindE (rollDamage (getWeaponDamage c False) g1) (\<lambda>(d, g2).
                Inr (\<lparr>attackRoll = ar, dealt = d * 2,
                      attack_message =
                        [T ''CRITICAL HIT! '', T (char_name c), T '' strikes '',
                         T (npc_name enemy), T '' for '', N (of_int (d * 2)),
                         T '' damage!'']\<rparr>, g2))
            else if hits ar then
              bindE (rollDamage (getWeaponDamage c False) g1) (\<lambda>(d, g2).
                Inr (\<lparr>attackRoll = ar, dealt = d,
                      attack_message =
                        [T (char_name c), T '' hits '', T (npc_name enemy), T '' for '',
                         N (of_int d), T '' damage!'']\<rparr>, g2))
            else if criticalFail ar then
              Inr (\<lparr>attackRoll = ar, dealt = 0,
                    attack_message =
                      [T ''CRITICAL MISS! '', T (char_name c),
                       T '''s attack goes completely astray!'']\<rparr>, g1)
            else
              Inr (\<lparr>attackRoll = ar, dealt = 0,
                    attack_message =
                      [T (char_name c), T '' misses '', T (npc_name enemy),
                       T ''. (Rolled '', N (of_int (total ar)), T '' vs AC '',
                       N (of_int (stat_armorClass st)), T '')'']\<rparr>, g1)))"

definition enemyAttack :: "NPC \<Rightarrow> Character \<Rightarrow> rng \<Rightarrow> error + (AttackResult \<times> rng)" where
  "enemyAttack enemy c g =
     (case stats enemy of
        None \<Rightarrow> Inl NoCombatStats
      | Some st \<Rightarrow>
          bindE (makeAttackRoll (attackBonus st) (armorClass c) g) (\<lambda>(ar, g1).
            if critical ar then
              bindE (rollDamage (damage st) g1) (\<lambda>(d, g2).
                Inr (\<lparr>attackRoll = ar, dealt = d * 2,
                      attack_message =
                        [T ''CRITICAL HIT! '', T (npc_name enemy), T '' strikes '',
                         T (char_name c), T '' for '', N (of_int (d * 2)),
                         T '' damage!'']\<rparr>, g2))
            else if hits ar then
              bindE (rollDamage (damage st) g1) (\<lambda>(d, g2).
                Inr (\<lparr>attackRoll = ar, dealt = d,
                      attack_message =
                        [T (npc_name enemy), T '' hits '', T (char_name c), T '' for '',
                         N (of_int d), T '' damage!'']\<rparr>, g2))
            else if criticalFail ar then
              Inr (\<lparr>attackRoll = ar, dealt = 0,
                    attack_message =
                      [T (npc_name enemy), T '''s attack fails miserably!'']\<rparr>, g1)
            else
              Inr (\<lparr>attackRoll = ar, dealt = 0,
                    attack_message =
                      [T (npc_name enemy), T '' misses '', T (char_name c),
                       T ''. (Rolled '', N (of_int (total ar)), T '' vs AC '',
                       N (of_int (armorClass c)), T '')'']\<rparr>, g1)))"

record FleeResult =
  flee_success :: bool
  flee_roll :: int
  flee_message :: "MsgPart list"

definition attemptFlee :: "Character \<Rightarrow> rng \<Rightarrow> error + (FleeResult \<times> rng)" where
  "attemptFlee c g =
     (let dc = 12
      in bindE (rollDice 20 g) (\<lambda>(r, g').
           let rl = r + dexterity (abilityModifiers c);
               success = (rl \<ge> dc);
               msg = (if success
                      then [T (char_name c), T '' successfully flees from combat! (Rolled '',
                            N (of_int rl), T '' vs DC '', N (of_int dc), T '')'']
                      else [T (char_name c), T '' fails to escape! (Rolled '',
                            N (of_int rl), T '' vs DC '', N (of_int dc), T '')''])
           in Inr (\<lparr>flee_success = success, flee_roll = rl, flee_message = msg\<rparr>, g')))"

fun recordMaxHPs :: "NPC list \<Rightarrow> (string \<rightharpoonup> int) \<Rightarrow> (string \<rightharpoonup> int)" where
  "recordMaxHPs [] m = m"
| "recordMaxHPs (e # es) m =
     recordMaxHPs es (case stats e of
                        Some st \<Rightarrow> m(npc_id e \<mapsto> stat_hitPoints st)
                      | None \<Rightarrow> m)"

definition initiateCombat :: "Character \<Rightarrow> NPC list \<Rightarrow> rng \<Rightarrow> error + (CombatState \<times> rng)" where
  "initiateCombat c es g =
     bindE (determineTurnOrder c es g) (\<lambda>((order, initiatives), g').
       Inr (\<lparr>active = True,
             enemies = es,
             enemyMaxHPs = recordMaxHPs es Map.empty,
             totalEnemyCount = length es,
             turnOrder = order,
             currentTurnIndex = 0,
             combat_round = 1\<rparr>, g'))"

text \<open>Reading an array out of range gives \<open>undefined\<close>: \<open>None\<close>.\<close>

definition getCurrentCombatant :: "CombatState \<Rightarrow> string option" where
  "getCurrentCombatant cb =
     (if currentTurnIndex cb < length (turnOrder cb)
      then Some (turnOrder cb ! currentTurnIndex cb) else None)"

definition isPlayerTurn :: "CombatState \<Rightarrow> string \<Rightarrow> bool" where
  "isPlayerTurn cb playerId = (getCurrentCombatant cb = Some playerId)"

definition nextTurn :: "CombatState \<Rightarrow> CombatState" where
  "nextTurn cb =
     (let nextIndex = currentTurnIndex cb + 1
      in if nextIndex \<ge> length (turnOrder cb)
         then cb\<lparr>currentTurnIndex := 0, combat_round := combat_round cb + 1\<rparr>
         else cb\<lparr>currentTurnIndex := nextIndex\<rparr>)"

definition updateEnemyHP ::
  "CombatState \<Rightarrow> string \<Rightarrow> int \<Rightarrow> CombatState \<times> bool \<times> NPC option" where
  "updateEnemyHP cb enemyId dmg =
     (let updatedEnemies =
            map (\<lambda>enemy.
                   case stats enemy of
                     Some st \<Rightarrow>
                       if npc_id enemy = enemyId
                       then (let newHP = max 0 (stat_hitPoints st - dmg)
                             in enemy\<lparr>stats := Some (st\<lparr>stat_hitPoints := newHP\<rparr>)\<rparr>)
                       else enemy
                   | None \<Rightarrow> enemy)
                (enemies cb);
          defeatedEnemy =
            find (\<lambda>e. npc_id e = enemyId \<and>
                       (case stats e of Some st \<Rightarrow> stat_hitPoints st \<le> 0 | None \<Rightarrow> False))
                 updatedEnemies;
          remainingEnemies =
            filter (\<lambda>e. case stats e of Some st \<Rightarrow> stat_hitPoints st > 0 | None \<Rightarrow> True)
                   updatedEnemies;
          order = (if defeatedEnemy \<noteq> None
                   then filter (\<lambda>i. i \<noteq> enemyId) (turnOrder cb)
                   else turnOrder cb)
      in (cb\<lparr>enemies := remainingEnemies, turnOrder := order\<rparr>,
          defeatedEnemy \<noteq> None, defeatedEnemy))"

definition shouldEndCombat :: "CombatState \<Rightarrow> bool \<times> bool" where
  "shouldEndCombat cb =
     (let allEnemiesDefeated =
            list_all (\<lambda>e. case stats e of Some st \<Rightarrow> stat_hitPoints st \<le> 0 | None \<Rightarrow> True)
                     (enemies cb)
      in (allEnemiesDefeated, allEnemiesDefeated))"

text \<open>The \<open>for\<close> loop of \<open>endCombat\<close>: one draw of 10 to 50 gold for each counted enemy.\<close>

fun goldLoop :: "nat \<Rightarrow> int \<Rightarrow> rng \<Rightarrow> int \<times> rng" where
  "goldLoop 0 goldGained g = (goldGained, g)"
| "goldLoop (Suc n) goldGained g = goldLoop n (goldGained + (\<lfloor>shd g * 41\<rfloor> + 10)) (stl g)"

record Rewards =
  experienceGained :: int
  goldGained :: int

definition endCombat :: "CombatState \<Rightarrow> rng \<Rightarrow> Rewards \<times> rng" where
  "endCombat cb g =
     (let count = (if totalEnemyCount cb \<noteq> 0 then totalEnemyCount cb
                   else length (enemies cb));
          (gld, g') = goldLoop count 0 g
      in (\<lparr>experienceGained = int count * 100, goldGained = gld\<rparr>, g'))"


section \<open>World helpers (locations.ts, npcs.ts)\<close>

definition getConnectedLocation :: "Location \<Rightarrow> string \<Rightarrow> string option" where
  "getConnectedLocation location direction = map_of (connections location) direction"

definition getAvailableDirections :: "Location \<Rightarrow> string list" where
  "getAvailableDirections location = map fst (connections location)"

definition getDialogueNode :: "NPC \<Rightarrow> string \<Rightarrow> DialogueNode option" where
  "getDialogueNode npc nodeId = find (\<lambda>node. node_id node = nodeId) (dialogue npc)"

definition getStartingDialogue :: "NPC \<Rightarrow> DialogueNode option" where
  "getStartingDialogue npc =
     find (\<lambda>node. node_id node = ''greeting'' \<or> node_id node = ''encounter'' \<or>
                   node_id node = ''combat'')
          (dialogue npc)"

definition isHostile :: "NPC \<Rightarrow> bool" where
  "isHostile npc = hostile npc"

section \<open>The reducer (game-engine.ts)\<close>

subsection \<open>Helpers\<close>

definition REST_LOCATIONS :: "string set" where
  "REST_LOCATIONS = {''tavern-rooms'', ''forest-clearing''}"

definition addLog :: "GameState \<Rightarrow> MsgPart list \<Rightarrow> LogType \<Rightarrow> GameState" where
  "addLog s m t = s\<lparr>gameLog := gameLog s @ [\<lparr>message = m, log_type = t\<rparr>]\<rparr>"

text \<open>\<open>Array.prototype.join\<close>, \<open>findIndex\<close> (\<open>None\<close> for -1) and \<open>splice(i, 1)\<close>.\<close>

fun join :: "string \<Rightarrow> string list \<Rightarrow> string" where
  "join sep [] = []"
| "join sep [x] = x"
| "join sep (x # y # r) = x @ sep @ join sep (y # r)"

fun findIndex :: "('a \<Rightarrow> bool) \<Rightarrow> 'a list \<Rightarrow> nat option" where
  "findIndex P [] = None"
| "findIndex P (x # xs) = (if P x then Some 0 else map_option Suc (findIndex P xs))"

definition removeAt :: "nat \<Rightarrow> 'a list \<Rightarrow> 'a list" where
  "removeAt i xs = take i xs @ drop (Suc i) xs"

definition dq :: string where
  "dq = [CHR 0x22]"

definition newline :: string where
  "newline = [CHR 0x0A]"

definition emdash :: string where
  "emdash = [CHR 0xE2, CHR 0x80, CHR 0x94]"

fun numberedFrom :: "nat \<Rightarrow> DialogueOption list \<Rightarrow> string list" where
  "numberedFrom i [] = []"
| "numberedFrom i (opt # r) =
     (''  '' @ showNat (i + 1) @ ''. '' @ opt_text opt) # numberedFrom (i + 1) r"

definition optionTexts :: "DialogueOption list \<Rightarrow> string" where
  "optionTexts opts = join newline (numberedFrom 0 opts)"

definition itemTypeName :: "ItemType \<Rightarrow> string" where
  "itemTypeName t =
     (case t of Weapon \<Rightarrow> ''weapon'' | Armor \<Rightarrow> ''armor'' | Potion \<Rightarrow> ''potion''
      | Treasure \<Rightarrow> ''treasure'' | QuestItem \<Rightarrow> ''quest'' | Misc \<Rightarrow> ''misc'')"

text \<open>The combat value the source writes out on flight, death and victory.\<close>

definition inactiveCombat :: CombatState where
  "inactiveCombat =
     \<lparr>active = False, enemies = [], enemyMaxHPs = Map.empty, totalEnemyCount = 0,
      turnOrder = [], currentTurnIndex = 0, combat_round = 0\<rparr>"

subsection \<open>Enemy turns\<close>

text \<open>
  One pass through the body of the \<open>while\<close> loop of \<open>runEnemyTurns\<close>: it ends with
  \<open>continue\<close> or the end of the body (\<open>Continue\<close>), with \<open>return\<close> (\<open>Return\<close>) or with an
  exception (\<open>Throw\<close>).
\<close>

datatype LoopStep = Continue GameState rng | Return GameState rng | Throw error

definition enemyTurn :: "GameState \<Rightarrow> rng \<Rightarrow> LoopStep" where
  "enemyTurn s g =
     (let currentId = getCurrentCombatant (combat s);
          enemy = find (\<lambda>e. Some (npc_id e) = currentId) (enemies (combat s));
          skip = Continue (s\<lparr>combat := nextTurn (combat s)\<rparr>) g
      in case enemy of
           None \<Rightarrow> skip
         | Some en \<Rightarrow>
             (case stats en of
                None \<Rightarrow> skip
              | Some st \<Rightarrow>
                  if stat_hitPoints st \<le> 0 then skip
                  else
                    (case enemyAttack en (character s) g of
                       Inl e \<Rightarrow> Throw e
                     | Inr (result, g') \<Rightarrow>
                         (let s1 = addLog s (attack_message result) Combat
                          in if dealt result > 0 then
                               (let damagedCharacter =
                                      damageCharacter (character s1) (dealt result);
                                    s2 = s1\<lparr>character := damagedCharacter\<rparr>
                                in if \<not> isAlive damagedCharacter then
                                     Return
                                       ((addLog s2
                                           [T (char_name (character s2)), T '' has fallen!'']
                                           Error)
                                          \<lparr>combat := inactiveCombat\<rparr>) g'
                                   else Continue (s2\<lparr>combat := nextTurn (combat s2)\<rparr>) g')
                             else Continue (s1\<lparr>combat := nextTurn (combat s1)\<rparr>) g'))))"

text \<open>
  The loop itself.  It need not end (an empty turn order with combat active never
  reaches the player), so it is a partial function: \<open>None\<close> is a call that never
  returns, \<open>Some (Inl e)\<close> one that throws, \<open>Some (Inr (s, g))\<close> one that returns.
\<close>

partial_function (option) runEnemyTurns ::
  "GameState \<times> rng \<Rightarrow> (error + GameState \<times> rng) option" where
  "runEnemyTurns p =
     (if active (combat (fst p)) \<and>
         \<not> isPlayerTurn (combat (fst p)) (char_id (character (fst p)))
      then (case enemyTurn (fst p) (snd p) of
              Continue s' g' \<Rightarrow> runEnemyTurns (s', g')
            | Return s' g' \<Rightarrow> Some (Inr (s', g'))
            | Throw e \<Rightarrow> Some (Inl e))
      else Some (Inr p))"

subsection \<open>Victory\<close>

definition handleCombatVictory :: "GameState \<Rightarrow> rng \<Rightarrow> error + GameState \<times> rng" where
  "handleCombatVictory s g =
     (let (rewards, g1) = endCombat (combat s) g
      in bindE (awardExperience (character s) (experienceGained rewards) g1)
           (\<lambda>((xpCharacter, leveledUp), g2).
              let updatedCharacter =
                    xpCharacter\<lparr>gold := gold xpCharacter + goldGained rewards\<rparr>;
                  s1 = s\<lparr>character := updatedCharacter, combat := inactiveCombat\<rparr>;
                  s2 = addLog s1
                         [T ''Victory! You gained '', N (of_int (experienceGained rewards)),
                          T '' XP and '', N (of_int (goldGained rewards)), T '' gold.'']
                         Success;
                  s3 = (if leveledUp then
                          addLog s2
                            [T ''LEVEL UP! You are now level '',
                             N (of_int (level updatedCharacter)), T ''! Max HP: '',
                             N (of_int (hp_max (hitPoints updatedCharacter))), T ''.'']
                            Success
                        else s2);
                  defeatedIds = map npc_id (enemies (combat s));
                  updatedLocations =
                    (\<lambda>locId.
                       map_option
                         (\<lambda>loc.
                            let filteredNpcs =
                                  filter (\<lambda>i. i \<notin> set defeatedIds) (loc_npcs loc)
                            in if length filteredNpcs \<noteq> length (loc_npcs loc)
                               then loc\<lparr>loc_npcs := filteredNpcs\<rparr> else loc)
                         (locations s3 locId))
              in Inr (s3\<lparr>locations := updatedLocations\<rparr>, g2)))"


subsection \<open>Action handlers\<close>

text \<open>
  A handler that can neither throw nor draw returns the state; one that can throw
  returns a sum; one that draws also returns the rest of the random stream; one that
  runs the enemy loop returns an option around the sum.
\<close>

definition handleMove ::
  "GameState \<Rightarrow> string \<Rightarrow> rng \<Rightarrow> (error + GameState \<times> rng) option" where
  "handleMove s0 direction g =
     (if active (combat s0) then
        Some (Inr (addLog s0
                     [T ''You cannot move while in combat! Try to flee instead.''] Warning, g))
      else
        (let s = (if activeDialogue s0 \<noteq> None then s0\<lparr>activeDialogue := None\<rparr> else s0)
         in case locations s (currentLocationId s) of
              None \<Rightarrow> Some (Inl TypeError)
            | Some currentLocation \<Rightarrow>
                (let targetLocationId = getConnectedLocation currentLocation direction
                 in if targetLocationId = None \<or> targetLocationId = Some [] then
                      (let available = getAvailableDirections currentLocation
                       in Some (Inr (addLog s
                                       [T ''You cannot go '', T direction,
                                        T ''. Available directions: '',
                                        T (join '', '' available), T ''.'']
                                       Warning, g)))
                    else
                      (let tid = the targetLocationId
                       in case locations s tid of
                            None \<Rightarrow>
                              Some (Inr (addLog s [T ''That path leads nowhere.''] Error, g))
                          | Some targetLocation \<Rightarrow>
                              (let updatedLocations =
                                     (locations s)(tid \<mapsto> targetLocation\<lparr>visited := True\<rparr>);
                                   n1 = s\<lparr>currentLocationId := tid,
                                          locations := updatedLocations\<rparr>;
                                   n2 = addLog n1 [T (loc_description targetLocation)] Info;
                                   n3 = (if length (loc_items targetLocation) > 0 then
                                           addLog n2
                                             [T ''You see on the ground: '',
                                              T (join '', ''
                                                   (map item_name (loc_items targetLocation))),
                                              T ''.'']
                                             Info
                                         else n2);
                                   hostileNpcIds =
                                     filter
                                       (\<lambda>npcId.
                                          case npcs n3 npcId of
                                            None \<Rightarrow> False
                                          | Some npc \<Rightarrow>
                                              isHostile npc \<and>
                                              (case stats npc of
                                                 None \<Rightarrow> False
                                               | Some st \<Rightarrow> stat_hitPoints st > 0))
                                       (loc_npcs targetLocation)
                               in if length hostileNpcIds > 0 then
                                    (let hostileNpcs = List.map_filter (npcs n3) hostileNpcIds;
                                         names = join '', '' (map npc_name hostileNpcs);
                                         n4 = addLog n3 [T names, T '' attacks you!''] Combat
                                     in case initiateCombat (character n4) hostileNpcs g of
                                          Inl e \<Rightarrow> Some (Inl e)
                                        | Inr (combatState, g') \<Rightarrow>
                                            runEnemyTurns (n4\<lparr>combat := combatState\<rparr>, g'))
                                  else
                                    (let friendlyNpcs =
                                           filter (\<lambda>n. \<not> hostile n)
                                             (List.map_filter (npcs n3)
                                                (loc_npcs targetLocation))
                                     in if length friendlyNpcs > 0 then
                                          Some (Inr (addLog n3
                                                       [T ''You see: '',
                                                        T (join '', ''
                                                             (map npc_name friendlyNpcs)),
                                                        T ''.'']
                                                       Info, g))
                                        else Some (Inr (n3, g))))))))"

definition handleTalk :: "GameState \<Rightarrow> string \<Rightarrow> error + GameState" where
  "handleTalk s npcId =
     (if active (combat s) then
        Inr (addLog s [T ''You cannot talk while in combat!''] Warning)
      else
        (case npcs s npcId of
           None \<Rightarrow> Inr (addLog s [T ''That person does not exist.''] Error)
         | Some npc \<Rightarrow>
             (case locations s (currentLocationId s) of
                None \<Rightarrow> Inl TypeError
              | Some location \<Rightarrow>
                  if npcId \<notin> set (loc_npcs location) then
                    Inr (addLog s [T (npc_name npc), T '' is not here.''] Warning)
                  else if isHostile npc then
                    Inr (addLog s
                           [T (npc_name npc), T '' is hostile and won't talk to you!'']
                           Warning)
                  else
                    (case getStartingDialogue npc of
                       None \<Rightarrow>
                         Inr (addLog s [T (npc_name npc), T '' has nothing to say.''] Info)
                     | Some startDialogue \<Rightarrow>
                         (let n1 = addLog s
                                     [T (npc_name npc), T '': '', T dq,
                                      T (node_text startDialogue), T dq]
                                     Dialogue
                          in if length (options startDialogue) > 0 then
                               (let n2 = addLog n1
                                           [T (optionTexts (options startDialogue))] Dialogue
                                in Inr (n2\<lparr>activeDialogue :=
                                             Some \<lparr>ad_npcId = npcId,
                                                   currentNodeId = node_id startDialogue\<rparr>\<rparr>))
                             else Inr n1)))))"

text \<open>The three callbacks of npcs.ts (\<open>addShopLog\<close> is \<open>addLog\<close> at type info).\<close>

definition addShopLog :: "GameState \<Rightarrow> MsgPart list \<Rightarrow> GameState" where
  "addShopLog s m = s\<lparr>gameLog := gameLog s @ [\<lparr>message = m, log_type = Info\<rparr>]\<rparr>"

definition runOptionAction :: "DialogueAction \<Rightarrow> GameState \<Rightarrow> GameState" where
  "runOptionAction a s =
     (case a of
        AcceptQuestStub \<Rightarrow> s
      | ShowWares \<Rightarrow>
          (case Option.bind (npcs s ''shopkeeper'') shop of
             None \<Rightarrow> addShopLog s [T ''I'm all sold out, sorry!'']
           | Some sh \<Rightarrow>
               if length (shop_items sh) = 0 then
                 addShopLog s [T ''I'm all sold out, sorry!'']
               else
                 (let s1 = addShopLog s [T ''--- For Sale ---''];
                      s2 = foldl
                             (\<lambda>st item.
                                let price = \<lceil>item_value item * buyMultiplier sh\<rceil>
                                in addShopLog st
                                     [T ''  '', T (item_name item), T '' '', T emdash, T '' '',
                                      N (of_int price), T '' gp ('',
                                      T (itemTypeName (item_type item)), T '', '',
                                      N (weight item), T '' lbs)''])
                             s1 (shop_items sh)
                  in addShopLog s2 [T ''Use '', T dq, T ''buy <item name>'', T dq,
                                    T '' to purchase.'']))
      | ShowSellable \<Rightarrow>
          (case Option.bind (npcs s ''shopkeeper'') shop of
             None \<Rightarrow> s
           | Some sh \<Rightarrow>
               (let its = items (inventory (character s))
                in if length its = 0 then
                     addShopLog s [T ''Looks like you don't have anything to sell.'']
                   else
                     (let s1 = addShopLog s [T ''--- Your Items ---''];
                          s2 = foldl
                                 (\<lambda>st item.
                                    let price = \<lfloor>item_value item * sellMultiplier sh\<rfloor>
                                    in addShopLog st
                                         [T ''  '', T (item_name item), T '' '', T emdash,
                                          T '' '', N (of_int price), T '' gp''])
                                 s1 its
                      in addShopLog s2 [T ''Use '', T dq, T ''sell <item name>'', T dq,
                                        T '' to sell.'']))))"

definition abilityOf :: "Ability \<Rightarrow> AbilityModifiers \<Rightarrow> int" where
  "abilityOf a m =
     (case a of Strength \<Rightarrow> strength m | Dexterity \<Rightarrow> dexterity m
      | Constitution \<Rightarrow> constitution m | Intelligence \<Rightarrow> intelligence m
      | Wisdom \<Rightarrow> wisdom m | Charisma \<Rightarrow> charisma m)"

text \<open>\<open>ability.slice(0, 3).toUpperCase()\<close> on the six ability names.\<close>

definition abilityLabel :: "Ability \<Rightarrow> string" where
  "abilityLabel a =
     (case a of Strength \<Rightarrow> ''STR'' | Dexterity \<Rightarrow> ''DEX'' | Constitution \<Rightarrow> ''CON''
      | Intelligence \<Rightarrow> ''INT'' | Wisdom \<Rightarrow> ''WIS'' | Charisma \<Rightarrow> ''CHA'')"

text \<open>
  The end of \<open>handleDialogueSelect\<close>, after the ability check: the callback, then the
  next node.
\<close>

definition followOption :: "GameState \<Rightarrow> string \<Rightarrow> NPC \<Rightarrow> DialogueOption \<Rightarrow> GameState" where
  "followOption n npcId npc opt =
     (let n1 = (case opt_action opt of Some a \<Rightarrow> runOptionAction a n | None \<Rightarrow> n);
          nextNode = (case nextNodeId opt of
                        None \<Rightarrow> None
                      | Some nid \<Rightarrow> if nid = [] then None else getDialogueNode npc nid)
      in case nextNode of
           None \<Rightarrow> n1\<lparr>activeDialogue := None\<rparr>
         | Some nn \<Rightarrow>
             (let n2 = addLog n1 [T (npc_name npc), T '': '', T dq, T (node_text nn), T dq]
                         Dialogue
              in if length (options nn) > 0 then
                   (addLog n2 [T (optionTexts (options nn))] Dialogue)
                     \<lparr>activeDialogue :=
                        Some \<lparr>ad_npcId = npcId, currentNodeId = node_id nn\<rparr>\<rparr>
                 else n2\<lparr>activeDialogue := None\<rparr>))"

definition handleDialogueSelect ::
  "GameState \<Rightarrow> int \<Rightarrow> rng \<Rightarrow> error + GameState \<times> rng" where
  "handleDialogueSelect s optionIndex g =
     (case activeDialogue s of
        None \<Rightarrow> Inr (addLog s [T ''You are not in a conversation.''] Warning, g)
      | Some ad \<Rightarrow>
          (case npcs s (ad_npcId ad) of
             None \<Rightarrow> Inr (s\<lparr>activeDialogue := None\<rparr>, g)
           | Some npc \<Rightarrow>
               if optionIndex = -1 then
                 Inr ((addLog s [T ''You end the conversation with '', T (npc_name npc),
                                 T ''.''] Info)
                        \<lparr>activeDialogue := None\<rparr>, g)
               else
                 (case getDialogueNode npc (currentNodeId ad) of
                    None \<Rightarrow>
                      Inr ((addLog s [T (npc_name npc), T '' has nothing more to say.'']
                              Info)
                             \<lparr>activeDialogue := None\<rparr>, g)
                  | Some currentNode \<Rightarrow>
                      if optionIndex < 0 \<or> optionIndex \<ge> int (length (options currentNode))
                      then
                        Inr (addLog s
                               [T ''Choose a number between 1 and '',
                                N (of_nat (length (options currentNode))),
                                T '', or type '', T dq, T ''leave'', T dq,
                                T '' to end the conversation.'']
                               Warning, g)
                      else
                        (let opt = options currentNode ! nat optionIndex;
                             n1 = addLog s [T ''You: '', T dq, T (opt_text opt), T dq]
                                    Dialogue
                         in case requiresCheck opt of
                              None \<Rightarrow> Inr (followOption n1 (ad_npcId ad) npc opt, g)
                            | Some (ability, dc) \<Rightarrow>
                                bindE (rollDice 20 g) (\<lambda>(r, g').
                                  let modifier =
                                        abilityOf ability (abilityModifiers (character n1));
                                      tot = r + modifier;
                                      success = (tot \<ge> dc);
                                      n2 = addLog n1
                                             [T ''['', T (abilityLabel ability),
                                              T '' check: rolled '', N (of_int r), T '' + '',
                                              N (of_int modifier), T '' = '', N (of_int tot),
                                              T '' vs DC '', N (of_int dc), T '' '', T emdash,
                                              T '' '',
                                              T (if success then ''Success!'' else ''Failed.''),
                                              T '']'']
                                             (if success then Success else Warning)
                                  in if \<not> success then
                                       Inr (addLog n2
                                              [T (npc_name npc), T '' is not convinced.'']
                                              Dialogue, g')
                                     else Inr (followOption n2 (ad_npcId ad) npc opt, g'))))))"

definition handleTake :: "GameState \<Rightarrow> string \<Rightarrow> error + GameState" where
  "handleTake s itemId =
     (if active (combat s) then
        Inr (addLog s [T ''You cannot pick up items while in combat!''] Warning)
      else
        (case locations s (currentLocationId s) of
           None \<Rightarrow> Inl TypeError
         | Some location \<Rightarrow>
             (case findIndex (\<lambda>i. item_id i = itemId) (loc_items location) of
                None \<Rightarrow> Inr (addLog s [T ''That item is not here.''] Warning)
              | Some itemIndex \<Rightarrow>
                  (let item = loc_items location ! itemIndex;
                       inv = inventory (character s);
                       newWeight = currentWeight inv + weight item
                   in if newWeight > maxWeight inv then
                        Inr (addLog s
                               [T ''You cannot carry '', T dq, T (item_name item), T dq,
                                T ''. It would exceed your carrying capacity ('',
                                N (currentWeight inv), T ''/'', N (maxWeight inv),
                                T '' lbs).'']
                               Warning)
                      else
                        (let updatedLocationItems = removeAt itemIndex (loc_items location);
                             updatedLocations =
                               (locations s)(currentLocationId s \<mapsto>
                                  location\<lparr>loc_items := updatedLocationItems\<rparr>);
                             updatedCharacter =
                               (character s)
                                 \<lparr>inventory :=
                                    inv\<lparr>items := items inv @ [item],
                                        currentWeight := newWeight\<rparr>\<rparr>
                         in Inr (addLog
                                   (s\<lparr>character := updatedCharacter,
                                      locations := updatedLocations\<rparr>)
                                   [T ''You pick up '', T (item_name item), T ''.'']
                                   Success))))))"

definition handleDrop :: "GameState \<Rightarrow> string \<Rightarrow> error + GameState" where
  "handleDrop s itemId =
     (if active (combat s) then
        Inr (addLog s [T ''You cannot drop items while in combat!''] Warning)
      else
        (let inv = inventory (character s)
         in case findIndex (\<lambda>i. item_id i = itemId) (items inv) of
              None \<Rightarrow> Inr (addLog s [T ''You don't have that item.''] Warning)
            | Some itemIndex \<Rightarrow>
                (let item = items inv ! itemIndex;
                     updatedItems = removeAt itemIndex (items inv);
                     updatedCharacter =
                       (character s)
                         \<lparr>inventory :=
                            inv\<lparr>items := updatedItems,
                                currentWeight := currentWeight inv - weight item\<rparr>\<rparr>
                 in case locations s (currentLocationId s) of
                      None \<Rightarrow> Inl TypeError
                    | Some location \<Rightarrow>
                        (let updatedLocations =
                               (locations s)(currentLocationId s \<mapsto>
                                  location\<lparr>loc_items := loc_items location @ [item]\<rparr>)
                         in Inr (addLog
                                   (s\<lparr>character := updatedCharacter,
                                      locations := updatedLocations\<rparr>)
                                   [T ''You drop '', T (item_name item), T ''.'']
                                   Info)))))"

definition handleUse :: "GameState \<Rightarrow> string \<Rightarrow> rng \<Rightarrow> error + GameState \<times> rng" where
  "handleUse s itemId g =
     (case findIndex (\<lambda>i. item_id i = itemId) (items (inventory (character s))) of
        None \<Rightarrow> Inr (addLog s [T ''You don't have that item.''] Warning, g)
      | Some itemIndex \<Rightarrow>
          (let item = items (inventory (character s)) ! itemIndex
           in if \<not> usable item then
                Inr (addLog s [T ''You can't use '', T (item_name item), T ''.''] Warning, g)
              else if item_type item = Potion then
                bindE (rollDice 4 g) (\<lambda>(r1, g1).
                  bindE (rollDice 4 g1) (\<lambda>(r2, g2).
                    let healAmount = r1 + r2 + 2;
                        healedCharacter = healCharacter (character s) healAmount;
                        updatedItems = removeAt itemIndex (items (inventory healedCharacter));
                        updatedCharacter =
                          healedCharacter
                            \<lparr>inventory :=
                               (inventory healedCharacter)
                                 \<lparr>items := updatedItems,
                                  currentWeight :=
                                    currentWeight (inventory healedCharacter) - weight item\<rparr>\<rparr>
                    in Inr (addLog (s\<lparr>character := updatedCharacter\<rparr>)
                              [T ''You use '', T (item_name item), T '' and recover '',
                               N (of_int healAmount), T '' hit points. (HP: '',
                               N (of_int (hp_current (hitPoints updatedCharacter))), T ''/'',
                               N (of_int (hp_max (hitPoints updatedCharacter))), T '')'']
                              Success, g2)))
              else
                Inr (addLog s
                       [T ''You use '', T (item_name item), T ''. Nothing special happens.'']
                       Info, g)))"


definition processPlayerAttack ::
  "GameState \<Rightarrow> string \<Rightarrow> rng \<Rightarrow> (error + GameState \<times> rng) option" where
  "processPlayerAttack s targetId g =
     (case find (\<lambda>e. npc_id e = targetId) (enemies (combat s)) of
        None \<Rightarrow> Some (Inr (addLog s [T ''That enemy is not in this fight.''] Warning, g))
      | Some enemy \<Rightarrow>
          (case characterAttack (character s) enemy g of
             Inl e \<Rightarrow> Some (Inl e)
           | Inr (result, g') \<Rightarrow>
               (let n1 = addLog s (attack_message result) Combat;
                    n2 = (if dealt result > 0 then
                            (let (updatedCombat, enemyDefeated, defeatedEnemy) =
                                   updateEnemyHP (combat n1) targetId (dealt result);
                                 m = n1\<lparr>combat := updatedCombat\<rparr>
                             in case defeatedEnemy of
                                  Some de \<Rightarrow>
                                    if enemyDefeated then
                                      addLog m [T (npc_name de), T '' has been defeated!'']
                                        Success
                                    else m
                                | None \<Rightarrow> m)
                          else n1);
                    (shouldEnd, victory) = shouldEndCombat (combat n2)
                in if shouldEnd \<and> victory then Some (handleCombatVictory n2 g')
                   else runEnemyTurns (n2\<lparr>combat := nextTurn (combat n2)\<rparr>, g'))))"

definition handleAttack ::
  "GameState \<Rightarrow> string \<Rightarrow> rng \<Rightarrow> (error + GameState \<times> rng) option" where
  "handleAttack s targetId g =
     (if \<not> active (combat s) then
        (case npcs s targetId of
           None \<Rightarrow> Some (Inr (addLog s [T ''That target does not exist.''] Error, g))
         | Some npc \<Rightarrow>
             if stats npc = None then
               Some (Inr (addLog s [T ''You cannot attack '', T (npc_name npc), T ''.'']
                            Warning, g))
             else
               (let n1 = addLog s [T ''You attack '', T (npc_name npc), T ''!''] Combat
                in case initiateCombat (character n1) [npc] g of
                     Inl e \<Rightarrow> Some (Inl e)
                   | Inr (combatState, g') \<Rightarrow>
                       processPlayerAttack (n1\<lparr>combat := combatState\<rparr>) targetId g'))
      else if \<not> isPlayerTurn (combat s) (char_id (character s)) then
        Some (Inr (addLog s [T ''It's not your turn!''] Warning, g))
      else processPlayerAttack s targetId g)"

definition handleDefend :: "GameState \<Rightarrow> rng \<Rightarrow> (error + GameState \<times> rng) option" where
  "handleDefend s g =
     (if \<not> active (combat s) then
        Some (Inr (addLog s [T ''You are not in combat.''] Warning, g))
      else if \<not> isPlayerTurn (combat s) (char_id (character s)) then
        Some (Inr (addLog s [T ''It's not your turn!''] Warning, g))
      else
        (let n1 = addLog s
                    [T (char_name (character s)),
                     T '' takes a defensive stance. (+2 AC until next turn)'']
                    Combat;
             boostedCharacter =
               (character n1)\<lparr>armorClass := armorClass (character n1) + 2\<rparr>;
             n2 = n1\<lparr>character := boostedCharacter\<rparr>;
             n3 = n2\<lparr>combat := nextTurn (combat n2)\<rparr>
         in case runEnemyTurns (n3, g) of
              None \<Rightarrow> None
            | Some (Inl e) \<Rightarrow> Some (Inl e)
            | Some (Inr (n4, g')) \<Rightarrow>
                (let restoredCharacter =
                       (character n4)\<lparr>armorClass := armorClass (character n4) - 2\<rparr>
                 in Some (Inr (n4\<lparr>character := restoredCharacter\<rparr>, g')))))"

definition handleFlee :: "GameState \<Rightarrow> rng \<Rightarrow> (error + GameState \<times> rng) option" where
  "handleFlee s g =
     (if \<not> active (combat s) then
        Some (Inr (addLog s
                     [T ''You are not in combat. There is nothing to flee from.'']
                     Warning, g))
      else
        (case attemptFlee (character s) g of
           Inl e \<Rightarrow> Some (Inl e)
         | Inr (result, g') \<Rightarrow>
             (let n1 = addLog s (flee_message result) Combat
              in if flee_success result then
                   Some (Inr (addLog (n1\<lparr>combat := inactiveCombat\<rparr>)
                                [T ''You escaped from combat!''] Success, g'))
                 else runEnemyTurns (n1\<lparr>combat := nextTurn (combat n1)\<rparr>, g'))))"

definition handleBuy :: "GameState \<Rightarrow> string \<Rightarrow> string \<Rightarrow> GameState" where
  "handleBuy s itemId npcId =
     (if active (combat s) then
        addLog s [T ''You cannot buy items while in combat!''] Warning
      else
        (case npcs s npcId of
           None \<Rightarrow> addLog s [T ''This merchant has no shop.''] Warning
         | Some npc \<Rightarrow>
             (case shop npc of
                None \<Rightarrow> addLog s [T ''This merchant has no shop.''] Warning
              | Some sh \<Rightarrow>
                  (case findIndex (\<lambda>i. item_id i = itemId) (shop_items sh) of
                     None \<Rightarrow> addLog s [T ''That item is not for sale.''] Warning
                   | Some itemIndex \<Rightarrow>
                       (let item = shop_items sh ! itemIndex;
                            price = \<lceil>item_value item * buyMultiplier sh\<rceil>;
                            inv = inventory (character s)
                        in if gold (character s) < price then
                             addLog s
                               [T ''You cannot afford '', T (item_name item),
                                T ''. It costs '', N (of_int price),
                                T '' gold but you only have '',
                                N (of_int (gold (character s))), T '' gold.'']
                               Warning
                           else
                             (let newWeight = currentWeight inv + weight item
                              in if newWeight > maxWeight inv then
                                   addLog s
                                     [T ''You cannot carry '', T (item_name item),
                                      T ''. Too heavy.'']
                                     Warning
                                 else
                                   (let updatedShopItems = removeAt itemIndex (shop_items sh);
                                        updatedNpcs =
                                          (npcs s)(npcId \<mapsto>
                                             npc\<lparr>shop :=
                                                   Some (sh\<lparr>shop_items := updatedShopItems\<rparr>)\<rparr>);
                                        updatedCharacter =
                                          (character s)
                                            \<lparr>gold := gold (character s) - price,
                                             inventory :=
                                               inv\<lparr>items := items inv @ [item],
                                                   currentWeight := newWeight\<rparr>\<rparr>
                                    in addLog
                                         (s\<lparr>character := updatedCharacter,
                                            npcs := updatedNpcs\<rparr>)
                                         [T ''You buy '', T (item_name item), T '' for '',
                                          N (of_int price), T '' gold. ('',
                                          N (of_int (gold updatedCharacter)),
                                          T '' gold remaining)'']
                                         Success)))))))"

definition handleSell :: "GameState \<Rightarrow> string \<Rightarrow> string \<Rightarrow> GameState" where
  "handleSell s itemId npcId =
     (if active (combat s) then
        addLog s [T ''You cannot sell items while in combat!''] Warning
      else
        (case npcs s npcId of
           None \<Rightarrow> addLog s [T ''This person doesn't buy items.''] Warning
         | Some npc \<Rightarrow>
             (case shop npc of
                None \<Rightarrow> addLog s [T ''This person doesn't buy items.''] Warning
              | Some sh \<Rightarrow>
                  (let inv = inventory (character s)
                   in case findIndex (\<lambda>i. item_id i = itemId) (items inv) of
                        None \<Rightarrow> addLog s [T ''You don't have that item.''] Warning
                      | Some itemIndex \<Rightarrow>
                          (let item = items inv ! itemIndex;
                               price = \<lfloor>item_value item * sellMultiplier sh\<rfloor>;
                               updatedInventoryItems = removeAt itemIndex (items inv);
                               updatedNpcs =
                                 (npcs s)(npcId \<mapsto>
                                    npc\<lparr>shop :=
                                          Some (sh\<lparr>shop_items := shop_items sh @ [item]\<rparr>)\<rparr>);
                               updatedCharacter =
                                 (character s)
                                   \<lparr>gold := gold (character s) + price,
                                    inventory :=
                                      inv\<lparr>items := updatedInventoryItems,
                                          currentWeight := currentWeight inv - weight item\<rparr>\<rparr>
                           in addLog
                                (s\<lparr>character := updatedCharacter, npcs := updatedNpcs\<rparr>)
                                [T ''You sell '', T (item_name item), T '' for '',
                                 N (of_int price), T '' gold. ('',
                                 N (of_int (gold updatedCharacter)), T '' gold total)'']
                                Success)))))"

definition handleRest :: "GameState \<Rightarrow> GameState" where
  "handleRest s =
     (if active (combat s) then
        addLog s [T ''You cannot rest while in combat!''] Warning
      else if currentLocationId s \<notin> REST_LOCATIONS then
        addLog s
          [T ''This is not a safe place to rest. Try the tavern rooms or the forest clearing.'']
          Warning
      else if hp_current (hitPoints (character s)) \<ge> hp_max (hitPoints (character s)) then
        addLog s [T ''You are already at full health.''] Info
      else
        (let healedCharacter =
               healCharacter (character s) (hp_max (hitPoints (character s)))
         in addLog (s\<lparr>character := healedCharacter\<rparr>)
              [T ''You rest and recover your strength. HP restored to '',
               N (of_int (hp_current (hitPoints healedCharacter))), T ''/'',
               N (of_int (hp_max (hitPoints healedCharacter))), T ''.'']
              Success))"

definition handleLook :: "GameState \<Rightarrow> GameState" where
  "handleLook s =
     (case locations s (currentLocationId s) of
        None \<Rightarrow> addLog s [T ''You see nothing.''] Info
      | Some location \<Rightarrow>
          (let n1 = addLog s [T ''--- '', T (loc_name location), T '' ---''] Info;
               n2 = addLog n1 [T (loc_description location)] Info;
               directions = getAvailableDirections location;
               n3 = (if length directions > 0 then
                       addLog n2 [T ''Exits: '', T (join '', '' directions), T ''.''] Info
                     else n2);
               n4 = (if length (loc_items location) > 0 then
                       addLog n3
                         [T ''On the ground: '',
                          T (join '', '' (map item_name (loc_items location))), T ''.'']
                         Info
                     else n3);
               npcsHere = List.map_filter (npcs s) (loc_npcs location)
           in if length npcsHere > 0 then
                addLog n4 [T ''Present: '', T (join '', '' (map npc_name npcsHere)), T ''.'']
                  Info
              else n4))"

definition handleInventory :: "GameState \<Rightarrow> GameState" where
  "handleInventory s =
     (let inv = inventory (character s)
      in if length (items inv) = 0 then addLog s [T ''Your inventory is empty.''] Info
         else
           (let n1 = addLog s
                       [T ''--- Inventory ('', F1 (currentWeight inv), T ''/'',
                        N (maxWeight inv), T '' lbs) ---'']
                       Info;
                n2 = foldl
                       (\<lambda>st item.
                          addLog st
                            [T ''  '', T (item_name item), T '' ('',
                             T (itemTypeName (item_type item)), T '', '', N (weight item),
                             T '' lbs)'', T (if usable item then '' [usable]'' else [])]
                            Info)
                       n1 (items inv)
            in addLog n2 [T ''Gold: '', N (of_int (gold (character s)))] Info))"

definition signPrefix :: "int \<Rightarrow> string" where
  "signPrefix m = (if m \<ge> 0 then ''+'' else [])"

definition handleStats :: "GameState \<Rightarrow> GameState" where
  "handleStats s =
     (let c = character s;
          sc = abilityScores c;
          md = abilityModifiers c;
          n1 = addLog s [T ''--- '', T (char_name c), T '' ---''] Info;
          n2 = addLog n1
                 [T (race c), T '' '', T (char_class c), T '' | Level '', N (of_int (level c)),
                  T '' ('', N (of_int (experience c)), T '' XP)'']
                 Info;
          n3 = addLog n2
                 [T ''HP: '', N (of_int (hp_current (hitPoints c))), T ''/'',
                  N (of_int (hp_max (hitPoints c))), T '' | AC: '',
                  N (of_int (armorClass c)), T '' | Gold: '', N (of_int (gold c))]
                 Info;
          n4 = addLog n3
                 [T ''STR '', N (of_int (strength sc)), T '' ('',
                  T (signPrefix (strength md)), N (of_int (strength md)), T '') | DEX '',
                  N (of_int (dexterity sc)), T '' ('',
                  T (signPrefix (dexterity md)), N (of_int (dexterity md)), T '') | CON '',
                  N (of_int (constitution sc)), T '' ('',
                  T (signPrefix (constitution md)), N (of_int (constitution md)), T '')'']
                 Info
      in addLog n4
           [T ''INT '', N (of_int (intelligence sc)), T '' ('',
            T (signPrefix (intelligence md)), N (of_int (intelligence md)), T '') | WIS '',
            N (of_int (wisdom sc)), T '' ('',
            T (signPrefix (wisdom md)), N (of_int (wisdom md)), T '') | CHA '',
            N (of_int (charisma sc)), T '' ('',
            T (signPrefix (charisma md)), N (of_int (charisma md)), T '')'']
           Info)"

subsection \<open>processAction\<close>

definition returns :: "rng \<Rightarrow> GameState \<Rightarrow> (error + GameState \<times> rng) option" where
  "returns g s = Some (Inr (s, g))"

definition returnsOrThrows ::
  "rng \<Rightarrow> error + GameState \<Rightarrow> (error + GameState \<times> rng) option" where
  "returnsOrThrows g r = (case r of Inl e \<Rightarrow> Some (Inl e) | Inr s \<Rightarrow> Some (Inr (s, g)))"

definition isLoadGame :: "GameAction \<Rightarrow> bool" where
  "isLoadGame a = (case a of LOAD_GAME saveId \<Rightarrow> True | _ \<Rightarrow> False)"

definition processAction ::
  "GameState \<Rightarrow> GameAction \<Rightarrow> rng \<Rightarrow> (error + GameState \<times> rng) option" where
  "processAction s a g =
     (if \<not> isAlive (character s) \<and> \<not> isLoadGame a then
        returns g (addLog s [T ''You are dead. Your adventure is over.''] Error)
      else
        (case a of
           MOVE direction \<Rightarrow> handleMove s direction g
         | TALK npcId \<Rightarrow> returnsOrThrows g (handleTalk s npcId)
         | DIALOGUE_SELECT optionIndex \<Rightarrow> Some (handleDialogueSelect s optionIndex g)
         | TAKE itemId \<Rightarrow> returnsOrThrows g (handleTake s itemId)
         | DROP itemId \<Rightarrow> returnsOrThrows g (handleDrop s itemId)
         | USE itemId \<Rightarrow> Some (handleUse s itemId g)
         | ATTACK targetId \<Rightarrow> handleAttack s targetId g
         | DEFEND \<Rightarrow> handleDefend s g
         | FLEE \<Rightarrow> handleFlee s g
         | BUY itemId npcId \<Rightarrow> returns g (handleBuy s itemId npcId)
         | SELL itemId npcId \<Rightarrow> returns g (handleSell s itemId npcId)
         | REST \<Rightarrow> returns g (handleRest s)
         | LOOK \<Rightarrow> returns g (handleLook s)
         | INVENTORY \<Rightarrow> returns g (handleInventory s)
         | STATS \<Rightarrow> returns g (handleStats s)
         | SAVE_GAME \<Rightarrow> returns g (addLog s [T ''Game saved.''] Success)
         | LOAD_GAME saveId \<Rightarrow> returns g (addLog s [T ''Game loaded.''] Success)))"


section \<open>Notions used by the properties\<close>

text \<open>
  The combat states that arise from \<open>initiateCombat c es\<close>: its result, and what
  \<open>updateEnemyHP\<close> and \<open>nextTurn\<close>, the two functions of combat.ts that return a combat
  state, make of such a state.
\<close>

inductive combatReachable :: "Character \<Rightarrow> NPC list \<Rightarrow> CombatState \<Rightarrow> bool"
  for c :: Character and es :: "NPC list" where
  started: "initiateCombat c es g = Inr (cb, g') \<Longrightarrow> combatReachable c es cb"
| damaged: "combatReachable c es cb \<Longrightarrow>
            combatReachable c es (fst (updateEnemyHP cb enemyId dmg))"
| advanced: "combatReachable c es cb \<Longrightarrow> combatReachable c es (nextTurn cb)"


section \<open>An example world\<close>

definition exPotion :: Item where
  "exPotion =
     \<lparr>item_id = ''healing-potion'', item_name = ''Healing Potion'',
      item_description = ''A vial of red liquid.'', weight = 1 / 2, item_value = 15,
      item_type = Potion, usable = True\<rparr>"

definition exTorch :: Item where
  "exTorch =
     \<lparr>item_id = ''torch'', item_name = ''Torch'', item_description = ''A wooden torch.'',
      weight = 1, item_value = 1, item_type = Misc, usable = True\<rparr>"

definition exSword :: Item where
  "exSword =
     \<lparr>item_id = ''sword'', item_name = ''Longsword'', item_description = ''A longsword.'',
      weight = 3, item_value = 15, item_type = Weapon, usable = False\<rparr>"

definition exAnvil :: Item where
  "exAnvil =
     \<lparr>item_id = ''anvil'', item_name = ''Anvil'', item_description = ''An iron anvil.'',
      weight = 200, item_value = 40, item_type = Misc, usable = False\<rparr>"

definition exHero :: Character where
  "exHero =
     \<lparr>char_id = ''hero'', char_name = ''Aldric'', race = ''Human'', char_class = ''Fighter'',
      level = 1, experience = 0, hitPoints = \<lparr>hp_current = 10, hp_max = 20\<rparr>,
      abilityScores = \<lparr>strength = 16, dexterity = 10, constitution = 10,
                       intelligence = 10, wisdom = 10, charisma = 10\<rparr>,
      abilityModifiers = \<lparr>strength = 3, dexterity = 0, constitution = 0,
                          intelligence = 0, wisdom = 0, charisma = 0\<rparr>,
      inventory = \<lparr>items = [exPotion, exTorch], maxWeight = 150, currentWeight = 3 / 2\<rparr>,
      gold = 50, armorClass = 10\<rparr>"

definition exGoblin :: NPC where
  "exGoblin =
     \<lparr>npc_id = ''goblin'', npc_name = ''Goblin'', npc_description = ''A snarling goblin.'',
      dialogue = [\<lparr>node_id = ''combat'', node_text = ''The goblin shrieks!'', options = []\<rparr>],
      hostile = True,
      stats = Some \<lparr>stat_hitPoints = 15, stat_armorClass = 10, attackBonus = 2,
                    damage = ''1d6+1''\<rparr>,
      questGiver = None, shop = None\<rparr>"

definition exShopkeeper :: NPC where
  "exShopkeeper =
     \<lparr>npc_id = ''shopkeeper'', npc_name = ''Mira'', npc_description = ''A shrewd woman.'',
      dialogue = [\<lparr>node_id = ''wares'', node_text = ''Swords, mostly.'', options = []\<rparr>,
                  \<lparr>node_id = ''greeting'', node_text = ''Welcome to my shop!'',
                   options = [\<lparr>opt_text = ''Just browsing.'', nextNodeId = None,
                               opt_action = None, requiresCheck = None\<rparr>]\<rparr>],
      hostile = False, stats = None, questGiver = None,
      shop = Some \<lparr>shop_items = [exSword], buyMultiplier = 3 / 2, sellMultiplier = 1 / 2\<rparr>\<rparr>"

text \<open>An NPC whose dialogue list has an \<open>encounter\<close> node before its \<open>greeting\<close> node.\<close>

definition exHermit :: NPC where
  "exHermit =
     \<lparr>npc_id = ''hermit'', npc_name = ''Hermit'', npc_description = ''An old hermit.'',
      dialogue = [\<lparr>node_id = ''encounter'', node_text = ''Who goes there?'',
                   options = [\<lparr>opt_text = ''A friend.'', nextNodeId = Some ''greeting'',
                               opt_action = None, requiresCheck = None\<rparr>]\<rparr>,
                  \<lparr>node_id = ''greeting'', node_text = ''Well met.'', options = []\<rparr>],
      hostile = False, stats = None, questGiver = None, shop = None\<rparr>"

definition exSquare :: Location where
  "exSquare =
     \<lparr>loc_id = ''square'', loc_name = ''Village Square'',
      loc_description = ''The heart of the village.'',
      connections = [(''north'', ''cave'')],
      loc_npcs = [''shopkeeper'', ''hermit''], loc_items = [exSword, exAnvil],
      visited = True\<rparr>"

definition exCave :: Location where
  "exCave =
     \<lparr>loc_id = ''cave'', loc_name = ''Cave'', loc_description = ''A damp cave.'',
      connections = [(''south'', ''square'')],
      loc_npcs = [''goblin''], loc_items = [], visited = False\<rparr>"

definition exState :: GameState where
  "exState =
     \<lparr>character = exHero, currentLocationId = ''square'',
      locations = [''square'' \<mapsto> exSquare, ''cave'' \<mapsto> exCave],
      npcs = [''goblin'' \<mapsto> exGoblin, ''shopkeeper'' \<mapsto> exShopkeeper,
              ''hermit'' \<mapsto> exHermit],
      quests = [], combat = inactiveCombat, activeDialogue = None, gameLog = []\<rparr>"

text \<open>
  The fight \<open>initiateCombat exHero [exGoblin]\<close> starts when every draw is 1/2 (both
  combatants roll 11), and the state in the cave with that fight going on.
\<close>

definition exFight :: CombatState where
  "exFight =
     \<lparr>active = True, enemies = [exGoblin], enemyMaxHPs = [''goblin'' \<mapsto> 15],
      totalEnemyCount = 1, turnOrder = [''hero'', ''goblin''], currentTurnIndex = 0,
      combat_round = 1\<rparr>"

definition exCaveState :: GameState where
  "exCaveState = exState\<lparr>currentLocationId := ''cave''\<rparr>"

definition exCombatState :: GameState where
  "exCombatState = exCaveState\<lparr>combat := exFight\<rparr>"

text \<open>The state in the square with a conversation with the hermit going on.\<close>

definition exTalking :: GameState where
  "exTalking =
     exState\<lparr>activeDialogue := Some \<lparr>ad_npcId = ''hermit'', currentNodeId = ''encounter''\<rparr>\<rparr>"

text \<open>A state whose conversation names an NPC that the game does not have.\<close>

definition exDangling :: GameState where
  "exDangling =
     exState\<lparr>activeDialogue := Some \<lparr>ad_npcId = ''ghost'', currentNodeId = ''greeting''\<rparr>\<rparr>"

text \<open>The state a call returns, if it returns one.\<close>

definition resultState :: "(error + GameState \<times> rng) option \<Rightarrow> GameState option" where
  "resultState r = (case r of Some (Inr (s, g)) \<Rightarrow> Some s | _ \<Rightarrow> None)"





section \<open>Properties\<close>

lemmas ex_defs =
  exPotion_def exTorch_def exSword_def exAnvil_def exHero_def exGoblin_def
  exShopkeeper_def exHermit_def
  exSquare_def exCave_def exState_def exFight_def exCaveState_def exCombatState_def
  exTalking_def exDangling_def
  inactiveCombat_def

subsection \<open>Hit points\<close>

text \<open>
  Claim C6.  For a character with \<open>0 \<le> current \<le> max\<close> and a non-negative amount,
  \<open>healCharacter\<close> and \<open>damageCharacter\<close> return characters that still satisfy
  \<open>0 \<le> current \<le> max\<close>: damage beyond the current hit points leaves 0, healing beyond
  the deficit leaves the maximum.  Both return a new character that differs from the
  argument in the current hit points only; the argument itself, a value, is as it was.
\<close>

theorem C6_hp_bounds:
  assumes "0 \<le> hp_current (hitPoints c)"
      and "hp_current (hitPoints c) \<le> hp_max (hitPoints c)"
      and "0 \<le> amount"
  shows "0 \<le> hp_current (hitPoints (healCharacter c amount)) \<and>
         hp_current (hitPoints (healCharacter c amount))
           \<le> hp_max (hitPoints (healCharacter c amount)) \<and>
         0 \<le> hp_current (hitPoints (damageCharacter c amount)) \<and>
         hp_current (hitPoints (damageCharacter c amount))
           \<le> hp_max (hitPoints (damageCharacter c amount)) \<and>
         (amount \<ge> hp_current (hitPoints c) \<longrightarrow>
            hp_current (hitPoints (damageCharacter c amount)) = 0) \<and>
         (amount \<ge> hp_max (hitPoints c) - hp_current (hitPoints c) \<longrightarrow>
            hp_current (hitPoints (healCharacter c amount)) = hp_max (hitPoints c)) \<and>
         healCharacter c amount =
           c\<lparr>hitPoints :=
               (hitPoints c)\<lparr>hp_current := hp_current (hitPoints (healCharacter c amount))\<rparr>\<rparr> \<and>
         damageCharacter c amount =
           c\<lparr>hitPoints :=
               (hitPoints c)\<lparr>hp_current := hp_current (hitPoints (damageCharacter c amount))\<rparr>\<rparr>"
  using assms by (simp add: healCharacter_def damageCharacter_def Let_def)

theorem C6_hp_bounds_witness:
  "hp_current (hitPoints (healCharacter exHero 25)) = 20 \<and>
   hp_current (hitPoints (damageCharacter exHero 25)) = 0 \<and>
   hp_max (hitPoints (healCharacter exHero 25)) = 20 \<and>
   hp_max (hitPoints (damageCharacter exHero 25)) = 20"
proof -
  have h1: "0 \<le> hp_current (hitPoints exHero)" by (simp add: exHero_def)
  have h2: "hp_current (hitPoints exHero) \<le> hp_max (hitPoints exHero)"
    by (simp add: exHero_def)
  have h3: "(0::int) \<le> 25" by simp
  show ?thesis
    using C6_hp_bounds [OF h1 h2 h3]
    by (simp add: exHero_def healCharacter_def damageCharacter_def)
qed

subsection \<open>Rewards\<close>

lemma goldLoop_eq:
  "goldLoop n acc g = (acc + (\<Sum>i<n. \<lfloor>snth g i * 41\<rfloor> + 10), sdrop n g)"
proof (induction n arbitrary: acc g)
  case 0
  then show ?case by simp
next
  case (Suc n)
  have "(\<Sum>i<Suc n. \<lfloor>snth g i * 41\<rfloor> + 10) =
        (\<lfloor>snth g 0 * 41\<rfloor> + 10) + (\<Sum>i<n. \<lfloor>snth g (Suc i) * 41\<rfloor> + 10)"
    by (rule sum.lessThan_Suc_shift)
  then have "(\<Sum>i<Suc n. \<lfloor>snth g i * 41\<rfloor> + 10) =
        (\<lfloor>shd g * 41\<rfloor> + 10) + (\<Sum>i<n. \<lfloor>snth (stl g) i * 41\<rfloor> + 10)"
    by simp
  moreover have "goldLoop (Suc n) acc g =
       (acc + (\<lfloor>shd g * 41\<rfloor> + 10) + (\<Sum>i<n. \<lfloor>snth (stl g) i * 41\<rfloor> + 10),
        sdrop n (stl g))"
    using Suc.IH [of "acc + (\<lfloor>shd g * 41\<rfloor> + 10)" "stl g"] by simp
  ultimately show ?case by simp
qed

lemma draw_bounds:
  assumes "0 \<le> (u::real)" "u < 1"
  shows "10 \<le> \<lfloor>u * 41\<rfloor> + 10 \<and> \<lfloor>u * 41\<rfloor> + 10 \<le> 50"
proof -
  have "0 \<le> \<lfloor>u * 41\<rfloor>" using assms by simp
  moreover have "u * 41 < 41" using assms by simp
  then have "\<lfloor>u * 41\<rfloor> < 41" by (simp add: floor_less_iff)
  ultimately show ?thesis by simp
qed

lemma validRng_snth: "validRng g \<Longrightarrow> 0 \<le> snth g i \<and> snth g i < 1"
  by (simp add: validRng_def snth_in)

lemma initiateCombat_count:
  "initiateCombat c es g = Inr (cb, g') \<Longrightarrow> totalEnemyCount cb = length es"
  by (auto simp: initiateCombat_def bindE_def split: sum.splits prod.splits)

lemma updateEnemyHP_count: "totalEnemyCount (fst (updateEnemyHP cb i d)) = totalEnemyCount cb"
  by (simp add: updateEnemyHP_def Let_def)

lemma nextTurn_count: "totalEnemyCount (nextTurn cb) = totalEnemyCount cb"
  by (simp add: nextTurn_def Let_def)

lemma reachable_count: "combatReachable c es cb \<Longrightarrow> totalEnemyCount cb = length es"
  by (induction rule: combatReachable.induct)
     (simp_all add: initiateCombat_count updateEnemyHP_count nextTurn_count)

lemma endCombat_eq:
  "totalEnemyCount cb \<noteq> 0 \<Longrightarrow>
   endCombat cb g =
     (\<lparr>experienceGained = int (totalEnemyCount cb) * 100,
       goldGained = (\<Sum>i<totalEnemyCount cb. \<lfloor>snth g i * 41\<rfloor> + 10)\<rparr>,
      sdrop (totalEnemyCount cb) g)"
  by (simp add: endCombat_def goldLoop_eq Let_def)

text \<open>
  Claim C8.  For a combat state that arises from \<open>initiateCombat\<close> on a non-empty enemy
  list, \<open>endCombat\<close> gives an experience reward of exactly \<open>totalEnemyCount \<times> 100\<close> and a
  gold reward that is the sum of \<open>totalEnemyCount\<close> draws \<open>floor(random \<times> 41) + 10\<close>, each
  between 10 and 50 when the random source stays in [0, 1); \<open>totalEnemyCount\<close> is the
  length of the enemy list combat started with, whatever has become of the live enemies
  since.
\<close>

theorem C8_rewards_from_original_count:
  assumes "combatReachable c es cb" and "es \<noteq> []"
  shows "totalEnemyCount cb = length es \<and>
         experienceGained (fst (endCombat cb g)) = int (totalEnemyCount cb) * 100 \<and>
         goldGained (fst (endCombat cb g)) =
           (\<Sum>i<totalEnemyCount cb. \<lfloor>snth g i * 41\<rfloor> + 10) \<and>
         snd (endCombat cb g) = sdrop (totalEnemyCount cb) g \<and>
         (validRng g \<longrightarrow>
            (\<forall>i<totalEnemyCount cb.
               10 \<le> \<lfloor>snth g i * 41\<rfloor> + 10 \<and> \<lfloor>snth g i * 41\<rfloor> + 10 \<le> 50))"
proof -
  have n: "totalEnemyCount cb = length es" using assms(1) by (rule reachable_count)
  then have "totalEnemyCount cb \<noteq> 0" using assms(2) by simp
  then show ?thesis using n by (simp add: endCombat_eq draw_bounds validRng_snth)
qed

lemma exFight_started:
  "initiateCombat exHero [exGoblin] (sconst (1 / 2)) = Inr (exFight, sconst (1 / 2))"
  by (simp add: initiateCombat_def determineTurnOrder_def rollInitiative_def rollDice_def
        bindE_def ex_defs)

theorem C8_rewards_from_original_count_witness:
  "enemies (fst (updateEnemyHP exFight ''goblin'' 15)) = [] \<and>
   totalEnemyCount (fst (updateEnemyHP exFight ''goblin'' 15)) = 1 \<and>
   experienceGained
     (fst (endCombat (fst (updateEnemyHP exFight ''goblin'' 15)) (sconst (1 / 2)))) = 100 \<and>
   goldGained
     (fst (endCombat (fst (updateEnemyHP exFight ''goblin'' 15)) (sconst (1 / 2)))) = 30"
proof -
  have r: "combatReachable exHero [exGoblin] (fst (updateEnemyHP exFight ''goblin'' 15))"
    by (rule combatReachable.damaged, rule combatReachable.started, rule exFight_started)
  have ne: "[exGoblin] \<noteq> []" by simp
  have e: "enemies (fst (updateEnemyHP exFight ''goblin'' 15)) = []"
    by (simp add: updateEnemyHP_def ex_defs)
  show ?thesis
    using C8_rewards_from_original_count [OF r ne, of "sconst (1 / 2)"] e
    by simp
qed

subsection \<open>Shop\<close>






subsection \<open>Carrying capacity\<close>








subsection \<open>Using items\<close>

lemma rollDice4: "rollDice 4 g = Inr (\<lfloor>shd g * 4\<rfloor> + 1, stl g)"
  by (simp add: rollDice_def)

lemma d4_bounds:
  assumes "0 \<le> (u::real)" "u < 1"
  shows "1 \<le> \<lfloor>u * 4\<rfloor> + 1 \<and> \<lfloor>u * 4\<rfloor> + 1 \<le> 4"
proof -
  have "0 \<le> \<lfloor>u * 4\<rfloor>" using assms by simp
  moreover have "u * 4 < 4" using assms by simp
  then have "\<lfloor>u * 4\<rfloor> < 4" by (simp add: floor_less_iff)
  ultimately show ?thesis by simp
qed

lemma validRng_shd: "validRng g \<Longrightarrow> 0 \<le> shd g \<and> shd g < 1"
  by (simp add: validRng_def shd_sset)

lemma validRng_stl: "validRng g \<Longrightarrow> validRng (stl g)"
  by (auto simp: validRng_def dest: stl_sset)

lemma processAction_USE:
  "isAlive (character s) \<Longrightarrow> processAction s (USE itemId) g = Some (handleUse s itemId g)"
  by (simp add: processAction_def)

lemma handleUse_combat:
  "\<exists>s' g'. handleUse s itemId g = Inr (s', g') \<and> combat s' = combat s \<and>
           handleUse (s\<lparr>combat := cb\<rparr>) itemId g = Inr (s'\<lparr>combat := cb\<rparr>, g')"
  by (simp add: handleUse_def rollDice4 bindE_def addLog_def Let_def split: option.splits)

text \<open>
  Claim C10.  For a living character in active combat, a USE returns (it neither
  throws nor loops), and the combat state of the result is the combat state of the
  input, every field of it; the call gives the very state and random stream it gives
  when combat is not active, up to the combat field: USE has no combat check, costs no
  turn and runs no enemy turn.
\<close>

theorem C10_use_in_combat:
  assumes alive: "isAlive (character s)" and fight: "active (combat s)"
  shows "\<exists>s' g'. processAction s (USE itemId) g = Some (Inr (s', g')) \<and>
                combat s' = combat s \<and>
                processAction (s\<lparr>combat := inactiveCombat\<rparr>) (USE itemId) g =
                  Some (Inr (s'\<lparr>combat := inactiveCombat\<rparr>, g'))"
proof -
  from handleUse_combat [of s itemId g inactiveCombat]
  obtain s' g' where h: "handleUse s itemId g = Inr (s', g')" "combat s' = combat s"
    "handleUse (s\<lparr>combat := inactiveCombat\<rparr>) itemId g = Inr (s'\<lparr>combat := inactiveCombat\<rparr>, g')"
    by blast
  have "isAlive (character (s\<lparr>combat := inactiveCombat\<rparr>))" using alive by simp
  then show ?thesis using h alive by (simp add: processAction_USE)
qed

text \<open>
  Claim C2, amended.  For a living character holding a usable item with the targeted
  id (the first such item of the inventory): if it is a potion, USE draws two d4, one
  after the other, heals by their sum plus 2 (clamped at the maximum), removes the
  potion from the inventory, reduces the current weight by its weight and logs a success
  entry; each of the two dice is between 1 and 4 when the random source stays in
  [0, 1).  If it is not a potion, the result is the input state with one more info
  entry in the log, and no draw is made.
\<close>

theorem C2_use_item:
  assumes alive: "isAlive (character s)"
      and held: "findIndex (\<lambda>i. item_id i = itemId) (items (inventory (character s))) = Some k"
      and us: "usable (items (inventory (character s)) ! k)"
  shows
   "(item_type (items (inventory (character s)) ! k) = Potion \<longrightarrow>
       (\<exists>m. processAction s (USE itemId) g =
          Some (Inr
            (addLog
               (s\<lparr>character :=
                    (character s)
                      \<lparr>hitPoints :=
                         (hitPoints (character s))
                           \<lparr>hp_current :=
                              min (hp_max (hitPoints (character s)))
                                  (hp_current (hitPoints (character s)) +
                                   ((\<lfloor>shd g * 4\<rfloor> + 1) + (\<lfloor>shd (stl g) * 4\<rfloor> + 1) + 2))\<rparr>,
                       inventory :=
                         (inventory (character s))
                           \<lparr>items := removeAt k (items (inventory (character s))),
                            currentWeight :=
                              currentWeight (inventory (character s)) -
                              weight (items (inventory (character s)) ! k)\<rparr>\<rparr>\<rparr>)
               m Success,
             stl (stl g))))) \<and>
    (validRng g \<longrightarrow>
       1 \<le> \<lfloor>shd g * 4\<rfloor> + 1 \<and> \<lfloor>shd g * 4\<rfloor> + 1 \<le> 4 \<and>
       1 \<le> \<lfloor>shd (stl g) * 4\<rfloor> + 1 \<and> \<lfloor>shd (stl g) * 4\<rfloor> + 1 \<le> 4) \<and>
    (item_type (items (inventory (character s)) ! k) \<noteq> Potion \<longrightarrow>
       (\<exists>m. processAction s (USE itemId) g = Some (Inr (addLog s m Info, g))))"
proof -
  have potion: "item_type (items (inventory (character s)) ! k) = Potion \<Longrightarrow>
     \<exists>m. processAction s (USE itemId) g =
          Some (Inr
            (addLog
               (s\<lparr>character :=
                    (character s)
                      \<lparr>hitPoints :=
                         (hitPoints (character s))
                           \<lparr>hp_current :=
                              min (hp_max (hitPoints (character s)))
                                  (hp_current (hitPoints (character s)) +
                                   ((\<lfloor>shd g * 4\<rfloor> + 1) + (\<lfloor>shd (stl g) * 4\<rfloor> + 1) + 2))\<rparr>,
                       inventory :=
                         (inventory (character s))
                           \<lparr>items := removeAt k (items (inventory (character s))),
                            currentWeight :=
                              currentWeight (inventory (character s)) -
                              weight (items (inventory (character s)) ! k)\<rparr>\<rparr>\<rparr>)
               m Success,
             stl (stl g)))"
    using alive held us
    by (simp add: processAction_USE handleUse_def rollDice4 bindE_def healCharacter_def
                  addLog_def Let_def) blast
  have dice: "validRng g \<Longrightarrow>
          1 \<le> \<lfloor>shd g * 4\<rfloor> + 1 \<and> \<lfloor>shd g * 4\<rfloor> + 1 \<le> 4 \<and>
          1 \<le> \<lfloor>shd (stl g) * 4\<rfloor> + 1 \<and> \<lfloor>shd (stl g) * 4\<rfloor> + 1 \<le> 4"
    using d4_bounds validRng_shd validRng_stl by blast
  have other: "item_type (items (inventory (character s)) ! k) \<noteq> Potion \<Longrightarrow>
     \<exists>m. processAction s (USE itemId) g = Some (Inr (addLog s m Info, g))"
    using alive held us
    by (simp add: processAction_USE handleUse_def Let_def) blast
  show ?thesis using potion dice other by blast
qed

text \<open>
  Claim C2 as stated fails: the heal is not twice one d4 plus 2.  With the draws 0 and
  1/4 the dice show 1 and 2, and the potion heals 5, from 10 to 15 of 20 hit points;
  twice a die plus 2 would give 14, 16, 18 or 20.
\<close>

theorem C2_potion_counterexample:
  "validRng (0 ## 1 / 4 ## sconst 0) \<and>
   hp_current (hitPoints (character exState)) = 10 \<and>
   hp_max (hitPoints (character exState)) = 20 \<and>
   map_option (hp_current \<circ> hitPoints \<circ> character)
     (resultState (processAction exState (USE ''healing-potion'') (0 ## 1 / 4 ## sconst 0))) =
     Some 15 \<and>
   (15::int) \<noteq> min 20 (10 + (2 * 1 + 2)) \<and>
   (15::int) \<noteq> min 20 (10 + (2 * 2 + 2)) \<and>
   (15::int) \<noteq> min 20 (10 + (2 * 3 + 2)) \<and>
   (15::int) \<noteq> min 20 (10 + (2 * 4 + 2))"
  by (simp add: validRng_def processAction_def isAlive_def handleUse_def rollDice_def bindE_def
        healCharacter_def addLog_def resultState_def removeAt_def ex_defs Let_def)

theorem C10_use_in_combat_witness:
  "isAlive (character exCombatState) \<and> active (combat exCombatState) \<and>
   (\<exists>s' g'. processAction exCombatState (USE ''healing-potion'') (sconst (1 / 2)) =
              Some (Inr (s', g')) \<and>
            combat s' = exFight \<and>
            items (inventory (character s')) = [exTorch])"
proof -
  have a: "isAlive (character exCombatState)" by (simp add: isAlive_def ex_defs)
  have f: "active (combat exCombatState)" by (simp add: ex_defs)
  from C10_use_in_combat [OF a f, of "''healing-potion''" "sconst (1 / 2)"]
  obtain s' g' where s':
    "processAction exCombatState (USE ''healing-potion'') (sconst (1 / 2)) = Some (Inr (s', g'))"
    "combat s' = combat exCombatState"
    by blast
  have ev: "map_option (items \<circ> inventory \<circ> character)
              (resultState
                 (processAction exCombatState (USE ''healing-potion'') (sconst (1 / 2)))) =
            Some [exTorch]"
    by (simp add: processAction_def isAlive_def handleUse_def rollDice_def bindE_def
          healCharacter_def addLog_def resultState_def removeAt_def ex_defs Let_def)
  have i: "items (inventory (character s')) = [exTorch]"
    using ev by (simp add: s'(1) resultState_def)
  have c: "combat s' = exFight" using s'(2) by (simp add: exCombatState_def)
  show ?thesis using a f s'(1) c i by blast
qed

theorem C2_use_item_witness:
  "(\<exists>s'. processAction exState (USE ''healing-potion'') (sconst (1 / 2)) =
            Some (Inr (s', sconst (1 / 2))) \<and>
         hp_current (hitPoints (character s')) = 18 \<and>
         items (inventory (character s')) = [exTorch] \<and>
         currentWeight (inventory (character s')) = 1) \<and>
   (\<exists>m. processAction exState (USE ''torch'') (sconst (1 / 2)) =
           Some (Inr (addLog exState m Info, sconst (1 / 2))))"
proof -
  have a: "isAlive (character exState)" by (simp add: isAlive_def ex_defs)
  have k0: "findIndex (\<lambda>i. item_id i = ''healing-potion'')
              (items (inventory (character exState))) = Some 0"
    by (simp add: ex_defs)
  have u0: "usable (items (inventory (character exState)) ! 0)" by (simp add: ex_defs)
  have p0: "item_type (items (inventory (character exState)) ! 0) = Potion"
    by (simp add: ex_defs)
  have k1: "findIndex (\<lambda>i. item_id i = ''torch'')
              (items (inventory (character exState))) = Some 1"
    by (simp add: ex_defs)
  have u1: "usable (items (inventory (character exState)) ! 1)" by (simp add: ex_defs)
  have p1: "item_type (items (inventory (character exState)) ! 1) \<noteq> Potion"
    by (simp add: ex_defs)
  from C2_use_item [OF a k0 u0, of "sconst (1 / 2)", THEN conjunct1, rule_format, OF p0]
  obtain m where m:
    "processAction exState (USE ''healing-potion'') (sconst (1 / 2)) =
       Some (Inr
            (addLog
               (exState\<lparr>character :=
                    (character exState)
                      \<lparr>hitPoints :=
                         (hitPoints (character exState))
                           \<lparr>hp_current :=
                              min (hp_max (hitPoints (character exState)))
                                  (hp_current (hitPoints (character exState)) +
                                   ((\<lfloor>shd (sconst (1 / 2) :: real stream) * 4\<rfloor> + 1) +
                                    (\<lfloor>shd (stl (sconst (1 / 2) :: real stream)) * 4\<rfloor> + 1) +
                                    2))\<rparr>,
                       inventory :=
                         (inventory (character exState))
                           \<lparr>items := removeAt 0 (items (inventory (character exState))),
                            currentWeight :=
                              currentWeight (inventory (character exState)) -
                              weight (items (inventory (character exState)) ! 0)\<rparr>\<rparr>\<rparr>)
               m Success,
             stl (stl (sconst (1 / 2)))))"
    by blast
  have r1: "\<exists>s'. processAction exState (USE ''healing-potion'') (sconst (1 / 2)) =
            Some (Inr (s', sconst (1 / 2))) \<and>
         hp_current (hitPoints (character s')) = 18 \<and>
         items (inventory (character s')) = [exTorch] \<and>
         currentWeight (inventory (character s')) = 1"
    unfolding m by (simp add: addLog_def removeAt_def ex_defs)
  have r2: "\<exists>m. processAction exState (USE ''torch'') (sconst (1 / 2)) =
           Some (Inr (addLog exState m Info, sconst (1 / 2)))"
    using C2_use_item [OF a k1 u1, of "sconst (1 / 2)", THEN conjunct2, THEN conjunct2,
                       rule_format, OF p1] .
  show ?thesis using r1 r2 by blast
qed

subsection \<open>Starting a conversation\<close>

lemma processAction_TALK:
  "isAlive (character s) \<Longrightarrow>
   processAction s (TALK npcId) g = returnsOrThrows g (handleTalk s npcId)"
  by (simp add: processAction_def)

lemma find_first:
  assumes "xs = pre @ x # post" and "\<forall>y \<in> set pre. \<not> P y" and "P x"
  shows "find P xs = Some x"
  using assms by (induction pre arbitrary: xs) auto

text \<open>
  Claim C3, amended.  For a living character outside combat and a non-hostile NPC
  present at the current location, TALK starts at the first node of the NPC's dialogue
  list, in list order, whose id is \<open>greeting\<close>, \<open>encounter\<close> or \<open>combat\<close> (no one of the
  three names is preferred to another).  The node's line is logged; if the node has
  options, they are logged too and the active dialogue becomes that NPC and that node
  id; otherwise nothing but the log changes.
\<close>

theorem C3_talk_start_node:
  assumes alive: "isAlive (character s)" and peace: "\<not> active (combat s)"
      and npc: "npcs s npcId = Some npc"
      and loc: "locations s (currentLocationId s) = Some loc"
      and here: "npcId \<in> set (loc_npcs loc)"
      and friendly: "\<not> hostile npc"
      and split: "dialogue npc = pre @ nd # post"
      and pre: "\<forall>n \<in> set pre. node_id n \<notin> {''greeting'', ''encounter'', ''combat''}"
      and nd: "node_id nd \<in> {''greeting'', ''encounter'', ''combat''}"
  shows "processAction s (TALK npcId) g =
           Some (Inr
             (if options nd \<noteq> [] then
                (addLog
                   (addLog s [T (npc_name npc), T '': '', T dq, T (node_text nd), T dq] Dialogue)
                   [T (optionTexts (options nd))] Dialogue)
                  \<lparr>activeDialogue := Some \<lparr>ad_npcId = npcId, currentNodeId = node_id nd\<rparr>\<rparr>
              else addLog s [T (npc_name npc), T '': '', T dq, T (node_text nd), T dq] Dialogue,
              g))"
proof -
  have "getStartingDialogue npc = Some nd"
    unfolding getStartingDialogue_def
    by (rule find_first [OF split]) (use pre nd in auto)
  then show ?thesis
    using alive peace npc loc here friendly
    by (simp add: processAction_TALK returnsOrThrows_def handleTalk_def isHostile_def Let_def)
qed

text \<open>
  Claim C3 as stated fails: the three names are not tried in a preference order.  The
  hermit's dialogue list has an \<open>encounter\<close> node before a \<open>greeting\<close> node, and TALK
  starts the conversation at \<open>encounter\<close>.
\<close>

theorem C3_preference_counterexample:
  "\<not> hostile exHermit \<and>
   map_option node_id (getDialogueNode exHermit ''greeting'') = Some ''greeting'' \<and>
   map_option activeDialogue (resultState (processAction exState (TALK ''hermit'') (sconst 0))) =
     Some (Some \<lparr>ad_npcId = ''hermit'', currentNodeId = ''encounter''\<rparr>)"
  by (simp add: processAction_def isAlive_def returnsOrThrows_def handleTalk_def isHostile_def
        getStartingDialogue_def getDialogueNode_def addLog_def resultState_def ex_defs Let_def)
theorem C3_talk_start_node_witness:
  "processAction exState (TALK ''shopkeeper'') (sconst 0) =
     Some (Inr
       ((addLog
           (addLog exState
              [T ''Mira'', T '': '', T dq, T ''Welcome to my shop!'', T dq] Dialogue)
           [T ''  1. Just browsing.''] Dialogue)
          \<lparr>activeDialogue := Some \<lparr>ad_npcId = ''shopkeeper'', currentNodeId = ''greeting''\<rparr>\<rparr>,
        sconst 0))"
proof -
  let ?wares = "\<lparr>node_id = ''wares'', node_text = ''Swords, mostly.'', options = []\<rparr>"
  let ?greet = "\<lparr>node_id = ''greeting'', node_text = ''Welcome to my shop!'',
                 options = [\<lparr>opt_text = ''Just browsing.'', nextNodeId = None,
                             opt_action = None, requiresCheck = None\<rparr>]\<rparr>"
  have a: "isAlive (character exState)" by (simp add: isAlive_def ex_defs)
  have p: "\<not> active (combat exState)" by (simp add: ex_defs)
  have n: "npcs exState ''shopkeeper'' = Some exShopkeeper" by (simp add: exState_def)
  have l: "locations exState (currentLocationId exState) = Some exSquare"
    by (simp add: exState_def)
  have h: "''shopkeeper'' \<in> set (loc_npcs exSquare)" by (simp add: exSquare_def)
  have f: "\<not> hostile exShopkeeper" by (simp add: exShopkeeper_def)
  have d: "dialogue exShopkeeper = [?wares] @ ?greet # []" by (simp add: exShopkeeper_def)
  have pre: "\<forall>n \<in> set [?wares]. node_id n \<notin> {''greeting'', ''encounter'', ''combat''}"
    by simp
  have nd: "node_id ?greet \<in> {''greeting'', ''encounter'', ''combat''}" by simp
  show ?thesis
    using C3_talk_start_node [OF a p n l h f d pre nd, of "sconst 0"]
    by (simp add: exShopkeeper_def optionTexts_def showNat.simps digitChar_def)
qed

subsection \<open>Refusals\<close>



text \<open>
  What a MOVE does when it fails after the combat check, for the record: the warning
  is appended to a state whose active dialogue has been cleared.
\<close>

lemma handleMove_no_way:
  assumes "isAlive (character s)" and "\<not> active (combat s)"
      and "locations s (currentLocationId s) = Some loc"
      and "getConnectedLocation loc direction = None"
  shows "\<exists>m. processAction s (MOVE direction) g =
              Some (Inr (addLog (s\<lparr>activeDialogue := None\<rparr>) m Warning, g))"
proof (cases "activeDialogue s")
  case None
  then have e: "s\<lparr>activeDialogue := None\<rparr> = s" by simp
  show ?thesis
    unfolding e using assms None
    by (simp add: processAction_def handleMove_def Let_def) blast
next
  case (Some ad)
  then show ?thesis
    using assms by (simp add: processAction_def handleMove_def Let_def) blast
qed




subsection \<open>Defending\<close>





















text \<open>The definitions that evaluate a turn of combat on the example world.\<close>

lemmas eval_defs =
  processAction_def isAlive_def isLoadGame_def returns_def returnsOrThrows_def
  handleDefend_def handleAttack_def processPlayerAttack_def handleCombatVictory_def
  enemyTurn_def enemyAttack_def characterAttack_def makeAttackRoll_def rollDamage_def
  rollDice_def bindE_def damageCharacter_def addLog_def nextTurn_def isPlayerTurn_def
  getCurrentCombatant_def matchDamageAt_def matchModifier_def isDigit_def digitValue_def
  parseDigits_def resultState_def getAttackBonus_def getWeaponDamage_def baseDamage_def
  showInt_def showNat.simps digitChar_def updateEnemyHP_def shouldEndCombat_def
  endCombat_def awardExperience_def initiateCombat_def determineTurnOrder_def
  rollInitiative_def Let_def



subsection \<open>Victory and the defeated enemies\<close>

text \<open>
  \<open>updateEnemyHP\<close> keeps an enemy only if it has no stats or is still alive, and combat
  is won when every enemy kept has no stats or is dead: at a victory that follows a hit,
  the enemy list that \<open>handleCombatVictory\<close> reads the defeated ids from holds no enemy
  with stats.
\<close>

lemma no_defeated_enemy_left:
  assumes "fst (shouldEndCombat (fst (updateEnemyHP cb enemyId dmg)))"
  shows "\<forall>e \<in> set (enemies (fst (updateEnemyHP cb enemyId dmg))). stats e = None"
  using assms
  by (auto simp: shouldEndCombat_def updateEnemyHP_def Let_def list_all_iff
           split: option.splits)

text \<open>
  Claim C1 on the code.  In the cave, whose NPC list is the goblin, the player attacks
  the goblin (15 hit points) and every draw is 0.95: a critical hit for 22 wins the
  fight at once.  The result has combat reset, 100 experience and 48 more gold, and the
  goblin is still in the cave's NPC list: the ids to remove are read from the live enemy
  list, from which \<open>updateEnemyHP\<close> has already dropped the goblin.
\<close>

theorem C1_defeated_npc_stays:
  "map_option loc_npcs (locations exCaveState ''cave'') = Some [''goblin''] \<and>
   map_option
     (\<lambda>s'. (active (combat s'), experience (character s'), gold (character s'),
            map_option loc_npcs (locations s' ''cave'')))
     (resultState (processAction exCaveState (ATTACK ''goblin'') (sconst (19 / 20)))) =
   Some (False, 100, 98, Some [''goblin''])"
  by (simp add: eval_defs ex_defs)

end
